theory Spec2Isabelle
  imports Complex_Main "HOL-Library.Multiset"
begin

section \<open>Python values\<close>

text \<open>
  The exceptions the modelled code can raise. A function that can raise returns
  \<open>py_error + 'a\<close>, with \<open>Inl\<close> for the exception.
\<close>

datatype py_error =
  RuntimeError | ValueError | IndexError | TypeError | FileNotFoundError | KeyError

text \<open>
  A Python float is idealised: a finite float is a real number (no rounding, no
  overflow). \<open>nan\<close> is kept, because numpy returns it for the mean of an empty array
  instead of raising, and every comparison with \<open>nan\<close> is false.
\<close>

datatype pyfloat = NaN | Fin real

fun fins :: "pyfloat list \<Rightarrow> real list option" where
  "fins [] = Some []"
| "fins (NaN # xs) = None"
| "fins (Fin r # xs) = (case fins xs of None \<Rightarrow> None | Some rs \<Rightarrow> Some (r # rs))"

definition mean_real :: "real list \<Rightarrow> real" where
  "mean_real rs = sum_list rs / real (length rs)"

definition np_mean :: "pyfloat list \<Rightarrow> pyfloat" where
  \<comment> \<open>\<open>np.mean\<close>: \<open>nan\<close> for an empty array (a warning, no exception)\<close>
  "np_mean xs =
     (case fins xs of
        None \<Rightarrow> NaN
      | Some rs \<Rightarrow> if rs = [] then NaN else Fin (mean_real rs))"

definition np_std :: "pyfloat list \<Rightarrow> pyfloat" where
  \<comment> \<open>\<open>np.std\<close> with its default \<open>ddof=0\<close>: \<open>sqrt(mean(abs(x - x.mean())**2))\<close>\<close>
  "np_std xs =
     (case fins xs of
        None \<Rightarrow> NaN
      | Some rs \<Rightarrow>
          if rs = [] then NaN
          else Fin (sqrt (mean_real (map (\<lambda>r. \<bar>r - mean_real rs\<bar> ^ 2) rs))))"

fun fl_add :: "pyfloat \<Rightarrow> pyfloat \<Rightarrow> pyfloat" where
  "fl_add (Fin a) (Fin b) = Fin (a + b)"
| "fl_add _ _ = NaN"

fun fl_ge :: "pyfloat \<Rightarrow> pyfloat \<Rightarrow> bool" where
  \<comment> \<open>\<open>a >= b\<close>\<close>
  "fl_ge (Fin a) (Fin b) = (b \<le> a)"
| "fl_ge _ _ = False"

fun fl_le :: "pyfloat \<Rightarrow> pyfloat \<Rightarrow> bool" where
  \<comment> \<open>\<open>a <= b\<close>\<close>
  "fl_le (Fin a) (Fin b) = (a \<le> b)"
| "fl_le _ _ = False"

fun split_on :: "char \<Rightarrow> string \<Rightarrow> string list" where
  \<comment> \<open>\<open>s.split(c)\<close> for a separator of one character\<close>
  "split_on c [] = [[]]"
| "split_on c (x # xs) =
     (if x = c then [] # split_on c xs
      else (case split_on c xs of
              [] \<Rightarrow> [[x]]
            | w # ws \<Rightarrow> (x # w) # ws))"

section \<open>Tensor shapes and the layers of \<open>torch.nn\<close>\<close>

text \<open>
  The network is modelled at the level of tensor shapes: a shape is the list of
  dimension sizes. The layers \<open>nn.LSTM\<close> and \<open>nn.Linear\<close> and the tensor methods
  \<open>reshape\<close> and \<open>repeat\<close> belong to PyTorch; their shape contracts are written down
  here as PyTorch documents them, for sizes that are positive.
\<close>

type_synonym shape = "nat list"

definition reshape :: "shape \<Rightarrow> shape \<Rightarrow> py_error + shape" where
  \<comment> \<open>\<open>x.reshape(target)\<close>, every size of the target given\<close>
  "reshape sh target =
     (if prod_list sh = prod_list target then Inr target else Inl RuntimeError)"

definition reshape_rows :: "shape \<Rightarrow> nat \<Rightarrow> py_error + shape" where
  \<comment> \<open>\<open>x.reshape((-1, d))\<close>: the first size is inferred\<close>
  "reshape_rows sh d =
     (if d = 0 then Inl RuntimeError
      else if prod_list sh mod d = 0 then Inr [prod_list sh div d, d]
      else Inl RuntimeError)"

definition repeat :: "shape \<Rightarrow> nat list \<Rightarrow> py_error + shape" where
  \<comment> \<open>\<open>x.repeat(reps)\<close>: the shape is padded with leading ones to the length of
      \<open>reps\<close>, which must not be shorter\<close>
  "repeat sh reps =
     (if length reps < length sh then Inl RuntimeError
      else Inr (map2 (*) reps (replicate (length reps - length sh) 1 @ sh)))"

record LSTM =
  input_size :: nat
  hidden_size :: nat
  num_layers :: nat

definition LSTM_forward :: "LSTM \<Rightarrow> shape \<Rightarrow> py_error + (shape \<times> (shape \<times> shape))" where
  \<comment> \<open>\<open>nn.LSTM(..., batch_first=True)\<close>, one direction: for an input
      \<open>(batch, seq, input_size)\<close> the result is \<open>(output, (h_n, c_n))\<close> with output
      \<open>(batch, seq, hidden_size)\<close> and \<open>h_n\<close>, \<open>c_n\<close> of shape
      \<open>(num_layers, batch, hidden_size)\<close>; an input \<open>(seq, input_size)\<close> is one
      sequence without a batch, and the results have no batch dimension. A sequence
      of no steps raises.\<close>
  "LSTM_forward l sh =
     (case sh of
        [b, t, i] \<Rightarrow>
          if t = 0 then Inl RuntimeError
          else if i = input_size l
          then Inr ([b, t, hidden_size l],
                 ([num_layers l, b, hidden_size l], [num_layers l, b, hidden_size l]))
          else Inl RuntimeError
      | [t, i] \<Rightarrow>
          if t = 0 then Inl RuntimeError
          else if i = input_size l
          then Inr ([t, hidden_size l],
                 ([num_layers l, hidden_size l], [num_layers l, hidden_size l]))
          else Inl RuntimeError
      | _ \<Rightarrow> Inl RuntimeError)"

record Linear =
  in_features :: nat
  out_features :: nat

definition Linear_forward :: "Linear \<Rightarrow> shape \<Rightarrow> py_error + shape" where
  \<comment> \<open>\<open>nn.Linear\<close> maps the last dimension from \<open>in_features\<close> to \<open>out_features\<close>\<close>
  "Linear_forward l sh =
     (if sh = [] then Inl RuntimeError
      else if last sh = in_features l then Inr (butlast sh @ [out_features l])
      else Inl RuntimeError)"

section \<open>The autoencoder (\<open>lstm_trainer.py\<close>)\<close>

record Encoder =
  enc_seq_len :: nat
  enc_n_features :: nat
  enc_embedding_dim :: nat
  enc_hidden_dim :: nat
  enc_lstm1 :: LSTM
  enc_lstm2 :: LSTM

definition Encoder_init :: "nat \<Rightarrow> nat \<Rightarrow> nat \<Rightarrow> nat \<Rightarrow> Encoder" where
  "Encoder_init seq_len n_features embedding_dim n_layers =
     \<lparr>enc_seq_len = seq_len, enc_n_features = n_features,
      enc_embedding_dim = embedding_dim, enc_hidden_dim = 2 * embedding_dim,
      enc_lstm1 = \<lparr>input_size = n_features, hidden_size = 2 * embedding_dim,
                   num_layers = n_layers\<rparr>,
      enc_lstm2 = \<lparr>input_size = 2 * embedding_dim, hidden_size = embedding_dim,
                   num_layers = n_layers\<rparr>\<rparr>"

definition Encoder_forward :: "Encoder \<Rightarrow> shape \<Rightarrow> py_error + shape" where
  "Encoder_forward e x =
     (case reshape x [1, enc_seq_len e, enc_n_features e] of
        Inl err \<Rightarrow> Inl err
      | Inr x1 \<Rightarrow>
          (case LSTM_forward (enc_lstm1 e) x1 of
             Inl err \<Rightarrow> Inl err
           | Inr (x2, hidden_states1) \<Rightarrow>
               (case LSTM_forward (enc_lstm2 e) x2 of
                  Inl err \<Rightarrow> Inl err
                | Inr (x3, hidden_states) \<Rightarrow>
                    reshape_rows (fst hidden_states) (enc_embedding_dim e))))"

record Decoder =
  dec_seq_len :: nat
  dec_input_dim :: nat
  dec_hidden_dim :: nat
  dec_output_dim :: nat
  dec_lstm1 :: LSTM
  dec_lstm2 :: LSTM
  dec_linear :: Linear

definition Decoder_init :: "nat \<Rightarrow> nat \<Rightarrow> nat \<Rightarrow> nat \<Rightarrow> Decoder" where
  "Decoder_init seq_len input_dim output_dim n_layers =
     \<lparr>dec_seq_len = seq_len, dec_input_dim = input_dim,
      dec_hidden_dim = 2 * input_dim, dec_output_dim = output_dim,
      dec_lstm1 = \<lparr>input_size = input_dim, hidden_size = input_dim,
                   num_layers = n_layers\<rparr>,
      dec_lstm2 = \<lparr>input_size = input_dim, hidden_size = 2 * input_dim,
                   num_layers = n_layers\<rparr>,
      dec_linear = \<lparr>in_features = 2 * input_dim, out_features = output_dim\<rparr>\<rparr>"

definition Decoder_forward :: "Decoder \<Rightarrow> shape \<Rightarrow> py_error + shape" where
  "Decoder_forward d x =
     (case repeat x [dec_seq_len d, 1] of
        Inl err \<Rightarrow> Inl err
      | Inr x1 \<Rightarrow>
          (case reshape x1 [1, dec_seq_len d, dec_input_dim d] of
             Inl err \<Rightarrow> Inl err
           | Inr x2 \<Rightarrow>
               (case LSTM_forward (dec_lstm1 d) x2 of
                  Inl err \<Rightarrow> Inl err
                | Inr (x3, hidden_states1) \<Rightarrow>
                    (case LSTM_forward (dec_lstm2 d) x3 of
                       Inl err \<Rightarrow> Inl err
                     | Inr (x4, hidden_states) \<Rightarrow>
                         (case reshape x4 [dec_seq_len d, dec_hidden_dim d] of
                            Inl err \<Rightarrow> Inl err
                          | Inr x5 \<Rightarrow> Linear_forward (dec_linear d) x5)))))"

record LAE =
  seq_len :: nat
  n_features :: nat
  embedding_dim :: nat
  encoder :: Encoder
  decoder :: Decoder

definition LAE_init :: "nat \<Rightarrow> nat \<Rightarrow> nat \<Rightarrow> nat \<Rightarrow> LAE" where
  "LAE_init sl nf ed n_layers =
     \<lparr>seq_len = sl, n_features = nf, embedding_dim = ed,
      encoder = Encoder_init sl nf ed n_layers,
      decoder = Decoder_init sl ed nf n_layers\<rparr>"

definition LAE_forward :: "LAE \<Rightarrow> shape \<Rightarrow> py_error + shape" where
  "LAE_forward m x =
     (case Encoder_forward (encoder m) x of
        Inl err \<Rightarrow> Inl err
      | Inr z \<Rightarrow> Decoder_forward (decoder m) z)"

section \<open>Tensors, the numeric back end and the files\<close>

text \<open>
  A tensor or array is its shape and its elements in row-major order.
\<close>

record tensor =
  t_shape :: shape
  t_data :: "pyfloat list"

text \<open>
  What the arithmetic of the network computes is not modelled: the values of the
  reconstruction, the loss function \<open>nn.L1Loss(reduction="mean")\<close>, the optimiser
  \<open>optim.Adam\<close> with \<open>loss.backward()\<close>, and the metrics of scikit-learn are
  parameters, collected in an environment together with the operating system's
  resolution of a path to a file. \<open>'w\<close> is the type of a model's parameter values
  (its \<open>state_dict\<close>), \<open>'o\<close> the optimiser's state and \<open>'fid\<close> the identity of a
  file.
\<close>

record ('w, 'o, 'fid) env =
  net_out :: "'w \<Rightarrow> tensor \<Rightarrow> nat \<Rightarrow> pyfloat"
  criterion :: "tensor \<Rightarrow> tensor \<Rightarrow> py_error + pyfloat"
  Adam :: "'w \<Rightarrow> real \<Rightarrow> 'o"
  optimizer_step :: "'o \<Rightarrow> 'w \<Rightarrow> tensor \<Rightarrow> 'o \<times> 'w"
  resolve :: "string \<Rightarrow> 'fid"
  mean_absolute_error :: "pyfloat list \<Rightarrow> pyfloat list \<Rightarrow> py_error + pyfloat"
  r2_score :: "pyfloat list \<Rightarrow> pyfloat list \<Rightarrow> py_error + pyfloat"

text \<open>
  The layers of an autoencoder fix the names and shapes of its parameters;
  \<open>load_state_dict(..., strict=True)\<close> accepts a checkpoint of the same layers only.
\<close>

type_synonym layers = "LSTM \<times> LSTM \<times> LSTM \<times> LSTM \<times> Linear"

definition layers_of :: "LAE \<Rightarrow> layers" where
  "layers_of a =
     (enc_lstm1 (encoder a), enc_lstm2 (encoder a),
      dec_lstm1 (decoder a), dec_lstm2 (decoder a), dec_linear (decoder a))"

record 'w module =
  arch :: LAE
  state_dict :: 'w

datatype 'w file_content =
    Checkpoint layers 'w
  | Npz "pyfloat list" "pyfloat list"
  | Histplot "pyfloat list"
  | ResultTxt "pyfloat list"
  | AnomalyCsv "pyfloat list" "pyfloat list" "pyfloat list" "bool list"

text \<open>
  \<open>Npz train_loss val_loss\<close> is the archive of the two loss arrays;
  \<open>Histplot\<close> a saved histogram, by the data plotted; \<open>ResultTxt\<close> the values of
  the lines written (threshold, accuracy, mean absolute error, R2 score);
  \<open>AnomalyCsv\<close> the columns \<open>TRQ\<close>, \<open>TRQ pred\<close>, \<open>MAE\<close> and \<open>Anomaly\<close>.
  Directories are not modelled.
\<close>

type_synonym ('w, 'fid) files = "'fid \<Rightarrow> 'w file_content option"

definition model_call :: "('w, 'o, 'fid) env \<Rightarrow> 'w module \<Rightarrow> tensor \<Rightarrow> py_error + tensor" where
  \<comment> \<open>\<open>model(seq_input)\<close>: the shape as \<open>LAE.forward\<close> computes it, the values from
      the back end\<close>
  "model_call E m x =
     (case LAE_forward (arch m) (t_shape x) of
        Inl err \<Rightarrow> Inl err
      | Inr sh \<Rightarrow>
          Inr \<lparr>t_shape = sh,
               t_data = map (net_out E (state_dict m) x) [0..<prod_list sh]\<rparr>)"

section \<open>The trainer (\<open>lstm_trainer.py\<close>)\<close>

record Trainer =
  log_dir :: string
  model_name :: string
  history :: "string \<Rightarrow> pyfloat list"

definition Trainer_init :: "string \<Rightarrow> string \<Rightarrow> Trainer" where
  \<comment> \<open>\<open>defaultdict(list)\<close>: every key starts with the empty list\<close>
  "Trainer_init ld mn = \<lparr>log_dir = ld, model_name = mn, history = (\<lambda>k. [])\<rparr>"

fun train_loop ::
  "('w, 'o, 'fid) env \<Rightarrow> LAE \<Rightarrow> tensor list \<Rightarrow> 'o \<times> 'w \<times> pyfloat list
    \<Rightarrow> py_error option \<times> ('o \<times> 'w \<times> pyfloat list)" where
  "train_loop E a [] s = (None, s)"
| "train_loop E a (seq_input # rest) (opt, w, train_losses) =
     (case model_call E \<lparr>arch = a, state_dict = w\<rparr> seq_input of
        Inl err \<Rightarrow> (Some err, (opt, w, train_losses))
      | Inr seq_pred \<Rightarrow>
          (case criterion E seq_pred seq_input of
             Inl err \<Rightarrow> (Some err, (opt, w, train_losses))
           | Inr loss \<Rightarrow>
               (case optimizer_step E opt w seq_input of
                  (opt', w') \<Rightarrow> train_loop E a rest (opt', w', train_losses @ [loss]))))"

fun val_loop ::
  "('w, 'o, 'fid) env \<Rightarrow> 'w module \<Rightarrow> tensor list \<Rightarrow> pyfloat list
    \<Rightarrow> py_error + pyfloat list" where
  "val_loop E m [] val_losses = Inr val_losses"
| "val_loop E m (seq_input # rest) val_losses =
     (case model_call E m seq_input of
        Inl err \<Rightarrow> Inl err
      | Inr seq_pred \<Rightarrow>
          (case criterion E seq_pred seq_input of
             Inl err \<Rightarrow> Inl err
           | Inr loss \<Rightarrow> val_loop E m rest (val_losses @ [loss])))"

fun fit_epochs ::
  "('w, 'o, 'fid) env \<Rightarrow> LAE \<Rightarrow> tensor list \<Rightarrow> tensor list \<Rightarrow> nat
    \<Rightarrow> 'o \<times> 'w \<times> (string \<Rightarrow> pyfloat list)
    \<Rightarrow> py_error option \<times> ('o \<times> 'w \<times> (string \<Rightarrow> pyfloat list))" where
  "fit_epochs E a train_dataset val_dataset 0 s = (None, s)"
| "fit_epochs E a train_dataset val_dataset (Suc k) (opt, w, h) =
     (case train_loop E a train_dataset (opt, w, []) of
        (Some err, (opt', w', train_losses)) \<Rightarrow> (Some err, (opt', w', h))
      | (None, (opt', w', train_losses)) \<Rightarrow>
          (case val_loop E \<lparr>arch = a, state_dict = w'\<rparr> val_dataset [] of
             Inl err \<Rightarrow> (Some err, (opt', w', h))
           | Inr val_losses \<Rightarrow>
               fit_epochs E a train_dataset val_dataset k
                 (opt', w',
                  h(''train loss'' := h ''train loss'' @ [np_mean train_losses],
                    ''val loss'' := h ''val loss'' @ [np_mean val_losses]))))"

definition endswith :: "string \<Rightarrow> string \<Rightarrow> bool" where
  "endswith s suf = (length suf \<le> length s \<and> drop (length s - length suf) s = suf)"

definition np_savez_path :: "string \<Rightarrow> string" where
  \<comment> \<open>\<open>np.savez\<close> appends \<open>.npz\<close> to a file name that does not end with it\<close>
  "np_savez_path p = (if endswith p ''.npz'' then p else p @ ''.npz'')"

definition checkpoint_path :: "Trainer \<Rightarrow> string" where
  "checkpoint_path t = log_dir t @ ''/'' @ model_name t @ ''.pth''"

definition losses_path :: "Trainer \<Rightarrow> string" where
  "losses_path t = np_savez_path (log_dir t @ ''/losses'')"

text \<open>
  \<open>fit\<close> changes the trainer's history, the model's parameters and the files; it
  returns its outcome (the history, or the exception that ended it) with the three
  as they are when it ends. \<open>range(num_epochs)\<close> is empty for a negative number.
\<close>

definition fit ::
  "('w, 'o, 'fid) env \<Rightarrow> Trainer \<Rightarrow> ('w, 'fid) files \<Rightarrow> 'w module \<Rightarrow> tensor list
    \<Rightarrow> tensor list \<Rightarrow> int \<Rightarrow> real
    \<Rightarrow> (py_error + (string \<Rightarrow> pyfloat list)) \<times> Trainer \<times> 'w module \<times> ('w, 'fid) files" where
  "fit E self fs model train_dataset val_dataset num_epochs learning_rate =
     (case fit_epochs E (arch model) train_dataset val_dataset (nat num_epochs)
             (Adam E (state_dict model) learning_rate, state_dict model, history self) of
        (Some err, (opt, w, h)) \<Rightarrow>
          (Inl err, self\<lparr>history := h\<rparr>, model\<lparr>state_dict := w\<rparr>, fs)
      | (None, (opt, w, h)) \<Rightarrow>
          (Inr h, self\<lparr>history := h\<rparr>, model\<lparr>state_dict := w\<rparr>,
           fs(resolve E (checkpoint_path self) \<mapsto> Checkpoint (layers_of (arch model)) w,
              resolve E (losses_path self) \<mapsto> Npz (h ''train loss'') (h ''val loss''))))"

text \<open>
  The per-sequence losses of each of the first \<open>k\<close> epochs, training and validation,
  as the two inner loops collect them.
\<close>

fun epoch_losses ::
  "('w, 'o, 'fid) env \<Rightarrow> LAE \<Rightarrow> tensor list \<Rightarrow> tensor list \<Rightarrow> nat \<Rightarrow> 'o \<times> 'w
    \<Rightarrow> (pyfloat list \<times> pyfloat list) list" where
  "epoch_losses E a train_dataset val_dataset 0 s = []"
| "epoch_losses E a train_dataset val_dataset (Suc k) (opt, w) =
     (case train_loop E a train_dataset (opt, w, []) of
        (Some err, s') \<Rightarrow> []
      | (None, (opt', w', train_losses)) \<Rightarrow>
          (case val_loop E \<lparr>arch = a, state_dict = w'\<rparr> val_dataset [] of
             Inl err \<Rightarrow> []
           | Inr val_losses \<Rightarrow>
               (train_losses, val_losses)
                 # epoch_losses E a train_dataset val_dataset k (opt', w')))"


section \<open>Prediction and anomaly scoring (\<open>lstm_trainer.py\<close>)\<close>

definition torch_load ::
  "('w, 'o, 'fid) env \<Rightarrow> ('w, 'fid) files \<Rightarrow> string \<Rightarrow> py_error + (layers \<times> 'w)" where
  "torch_load E fs path =
     (case fs (resolve E path) of
        None \<Rightarrow> Inl FileNotFoundError
      | Some (Checkpoint l w) \<Rightarrow> Inr (l, w)
      | Some other \<Rightarrow> Inl RuntimeError)"

definition load_state_dict :: "'w module \<Rightarrow> layers \<times> 'w \<Rightarrow> py_error + 'w module" where
  \<comment> \<open>\<open>strict=True\<close>: the names and shapes of the parameters must be the model's\<close>
  "load_state_dict m ckpt =
     (if fst ckpt = layers_of (arch m) then Inr (m\<lparr>state_dict := snd ckpt\<rparr>)
      else Inl RuntimeError)"

fun predict_loop ::
  "('w, 'o, 'fid) env \<Rightarrow> 'w module \<Rightarrow> tensor list \<Rightarrow> pyfloat list list \<times> pyfloat list
    \<Rightarrow> py_error + (pyfloat list list \<times> pyfloat list)" where
  "predict_loop E m [] acc = Inr acc"
| "predict_loop E m (seq_input # rest) (predictions, losses) =
     (case model_call E m seq_input of
        Inl err \<Rightarrow> Inl err
      | Inr seq_pred \<Rightarrow>
          (case criterion E seq_pred seq_input of
             Inl err \<Rightarrow> Inl err
           | Inr loss \<Rightarrow>
               predict_loop E m rest (predictions @ [t_data seq_pred], losses @ [loss])))"

definition np_array_rows :: "pyfloat list list \<Rightarrow> py_error + tensor" where
  \<comment> \<open>\<open>np.array\<close> of a list of one-dimensional arrays: rows of one length give a
      matrix, the empty list the empty array of shape \<open>(0,)\<close>, ragged rows raise\<close>
  "np_array_rows rows =
     (case rows of
        [] \<Rightarrow> Inr \<lparr>t_shape = [0], t_data = []\<rparr>
      | r # rs \<Rightarrow>
          if list_all (\<lambda>q. length q = length r) rs
          then Inr \<lparr>t_shape = [length rows, length r], t_data = concat rows\<rparr>
          else Inl ValueError)"

definition np_array_floats :: "pyfloat list \<Rightarrow> tensor" where
  "np_array_floats xs = \<lparr>t_shape = [length xs], t_data = xs\<rparr>"

definition reshape_column :: "tensor \<Rightarrow> tensor" where
  \<comment> \<open>\<open>a.reshape(-1, 1)\<close>\<close>
  "reshape_column a = \<lparr>t_shape = [prod_list (t_shape a), 1], t_data = t_data a\<rparr>"

text \<open>
  \<open>predict\<close> returns \<open>(predictions, losses)\<close>. The parameters it loads into the model
  are not returned: no caller reads the model after the call.
\<close>

definition predict ::
  "('w, 'o, 'fid) env \<Rightarrow> Trainer \<Rightarrow> ('w, 'fid) files \<Rightarrow> 'w module \<Rightarrow> string \<Rightarrow> tensor list
    \<Rightarrow> py_error + (tensor \<times> tensor)" where
  "predict E self fs model model_path dataset =
     (case torch_load E fs model_path of
        Inl err \<Rightarrow> Inl err
      | Inr ckpt \<Rightarrow>
          (case load_state_dict model ckpt of
             Inl err \<Rightarrow> Inl err
           | Inr loaded \<Rightarrow>
               (case predict_loop E loaded dataset ([], []) of
                  Inl err \<Rightarrow> Inl err
                | Inr (predictions, losses) \<Rightarrow>
                    (case np_array_rows predictions of
                       Inl err \<Rightarrow> Inl err
                     | Inr arr \<Rightarrow>
                         Inr (reshape_column arr,
                              reshape_column (np_array_floats losses))))))"

definition load_train_loss ::
  "('w, 'o, 'fid) env \<Rightarrow> ('w, 'fid) files \<Rightarrow> py_error + pyfloat list" where
  \<comment> \<open>\<open>np.load("training_logs/losses.npz")["train_loss"]\<close>\<close>
  "load_train_loss E fs =
     (case fs (resolve E ''training_logs/losses.npz'') of
        None \<Rightarrow> Inl FileNotFoundError
      | Some (Npz train_loss val_loss) \<Rightarrow> Inr train_loss
      | Some other \<Rightarrow> Inl KeyError)"

definition threshold_of :: "pyfloat list \<Rightarrow> pyfloat" where
  "threshold_of reconstruction_error =
     fl_add (np_mean reconstruction_error) (np_std reconstruction_error)"

definition np_asarray_tensors :: "tensor list \<Rightarrow> py_error + tensor" where
  \<comment> \<open>\<open>np.asarray([s.numpy() for s in dataset])\<close>: tensors of one shape are stacked,
      tensors of different shapes raise\<close>
  "np_asarray_tensors ds =
     (case ds of
        [] \<Rightarrow> Inr \<lparr>t_shape = [0], t_data = []\<rparr>
      | s # rest \<Rightarrow>
          if list_all (\<lambda>q. t_shape q = t_shape s) rest
          then Inr \<lparr>t_shape = length ds # t_shape s, t_data = concat (map t_data ds)\<rparr>
          else Inl ValueError)"

text \<open>
  The values \<open>plot_prediction\<close> computes before it plots and writes (lines 215 to
  233). The scaler comes from the data loader, which is not part of the sources: its
  \<open>inverse_transform\<close> on a column is a parameter.
\<close>

record scores =
  sc_threshold :: pyfloat
  sc_reconstruction_error :: "pyfloat list"
  sc_true_values :: "pyfloat list"
  sc_predictions :: "pyfloat list"
  sc_losses :: "pyfloat list"
  sc_mae :: pyfloat
  sc_R2 :: pyfloat
  sc_correct :: nat
  sc_anomaly :: "bool list"

definition scoring ::
  "('w, 'o, 'fid) env \<Rightarrow> Trainer \<Rightarrow> ('w, 'fid) files \<Rightarrow> tensor list \<Rightarrow> 'w module \<Rightarrow> string
    \<Rightarrow> (pyfloat list \<Rightarrow> py_error + pyfloat list) \<Rightarrow> py_error + scores" where
  "scoring E self fs dataset model model_path scaler =
     (case predict E self fs model model_path dataset of
        Inl err \<Rightarrow> Inl err
      | Inr (predictions, losses) \<Rightarrow>
     (case load_train_loss E fs of
        Inl err \<Rightarrow> Inl err
      | Inr reconstruction_error \<Rightarrow>
     (case np_asarray_tensors dataset of
        Inl err \<Rightarrow> Inl err
      | Inr arr \<Rightarrow>
     (case scaler (t_data (reshape_column arr)) of
        Inl err \<Rightarrow> Inl err
      | Inr true_values \<Rightarrow>
     (case scaler (t_data predictions) of
        Inl err \<Rightarrow> Inl err
      | Inr unscaled \<Rightarrow>
     (case mean_absolute_error E true_values unscaled of
        Inl err \<Rightarrow> Inl err
      | Inr mae \<Rightarrow>
     (case r2_score E true_values unscaled of
        Inl err \<Rightarrow> Inl err
      | Inr R2 \<Rightarrow>
          Inr \<lparr>sc_threshold = threshold_of reconstruction_error,
               sc_reconstruction_error = reconstruction_error,
               sc_true_values = true_values,
               sc_predictions = unscaled,
               sc_losses = t_data losses,
               sc_mae = mae,
               sc_R2 = R2,
               sc_correct =
                 length (filter (\<lambda>l. fl_le l (threshold_of reconstruction_error))
                   (t_data losses)),
               sc_anomaly =
                 map (\<lambda>l. fl_ge l (threshold_of reconstruction_error))
                   (t_data losses)\<rparr>)))))))"

definition bool_float :: "bool \<Rightarrow> pyfloat" where
  "bool_float b = Fin (if b then 1 else 0)"

text \<open>
  \<open>plot_prediction\<close> returns nothing; its outcome is \<open>Inr ()\<close> or the exception, with
  the files as they are then. A saved figure is the file of the data plotted, and
  \<open>result.txt\<close> is the list of the values written, line by line. Failures of the
  plotting library are not modelled.
\<close>

definition plot_prediction ::
  "('w, 'o, 'fid) env \<Rightarrow> Trainer \<Rightarrow> ('w, 'fid) files \<Rightarrow> tensor list \<Rightarrow> 'w module \<Rightarrow> string
    \<Rightarrow> (pyfloat list \<Rightarrow> py_error + pyfloat list) \<Rightarrow> bool
    \<Rightarrow> (py_error + unit) \<times> ('w, 'fid) files" where
  "plot_prediction E self fs dataset model model_path scaler show_plot =
     (case scoring E self fs dataset model model_path scaler of
        Inl err \<Rightarrow> (Inl err, fs)
      | Inr s \<Rightarrow>
          (let fs1 = fs(resolve E ''figures/reconstruction_error.png'' \<mapsto>
                          Histplot (sc_reconstruction_error s),
                        resolve E ''figures/test_error.png'' \<mapsto> Histplot (sc_losses s),
                        resolve E ''figures/anomaly.png'' \<mapsto>
                          Histplot (map bool_float (sc_anomaly s)))
           in if sc_losses s = []
              then (Inl TypeError,
                    fs1(resolve E ''training_logs/result.txt'' \<mapsto>
                          ResultTxt [sc_threshold s]))
              else
                (let accuracy =
                       Fin (real (sc_correct s) / real (length dataset) * 100);
                     fs2 = fs1(resolve E ''training_logs/result.txt'' \<mapsto>
                                 ResultTxt [sc_threshold s, accuracy, sc_mae s, sc_R2 s])
                 in if length (sc_true_values s) = length (sc_predictions s)
                       \<and> length (sc_predictions s) = length (sc_losses s)
                    then (Inr (),
                          fs2(resolve E ''training_logs/anomaly.csv'' \<mapsto>
                                AnomalyCsv (sc_true_values s) (sc_predictions s)
                                  (sc_losses s)
                                  (map (\<lambda>l. fl_ge l (sc_threshold s)) (sc_losses s))))
                    else (Inl ValueError, fs2))))"

section \<open>Combining the data files (\<open>combine_data.py\<close>)\<close>

text \<open>
  What \<open>combine_data\<close> asks of the operating system and of Python's \<open>float\<close> are
  parameters: \<open>os.makedirs(..., exist_ok=True)\<close>, which returns nothing
  (\<open>None\<close>) or raises, the listing of a directory (in the order \<open>os.listdir\<close>
  gives), the lines of a file as \<open>readlines\<close> returns them, the parsing of a float,
  and \<open>os.path.normpath\<close>. A character of a string stands for a code point below
  256.
\<close>

record os_env =
  makedirs :: "string \<Rightarrow> py_error option"
  listdir :: "string \<Rightarrow> py_error + string list"
  readlines :: "string \<Rightarrow> py_error + string list"
  py_float :: "string \<Rightarrow> py_error + pyfloat"
  normpath :: "string \<Rightarrow> string"

definition os_path_join :: "string \<Rightarrow> string \<Rightarrow> string" where
  "os_path_join a b =
     (if b \<noteq> [] \<and> hd b = CHR ''/'' then b
      else if a = [] then b
      else if last a = CHR ''/'' then a @ b
      else a @ ''/'' @ b)"

definition is_space :: "char \<Rightarrow> bool" where
  \<comment> \<open>the white space \<open>int\<close> strips: the ASCII white space of C, and the
      spaces beyond ASCII (\<open>0x85\<close> and \<open>0xA0\<close> below 256)\<close>
  "is_space c =
     (c \<in> set [CHR '' '', CHR 0x09, CHR 0x0A, CHR 0x0B, CHR 0x0C, CHR 0x0D,
              CHR 0x85, CHR 0xA0])"

definition py_strip :: "string \<Rightarrow> string" where
  "py_strip s = rev (dropWhile is_space (rev (dropWhile is_space s)))"

definition digit_of :: "char \<Rightarrow> nat option" where
  "digit_of c =
     (let n = (of_char c :: nat) in if 48 \<le> n \<and> n \<le> 57 then Some (n - 48) else None)"

fun digits_value :: "nat \<Rightarrow> string \<Rightarrow> nat option" where
  "digits_value acc [] = Some acc"
| "digits_value acc (c # cs) =
     (case digit_of c of None \<Rightarrow> None | Some d \<Rightarrow> digits_value (10 * acc + d) cs)"

definition py_int :: "string \<Rightarrow> py_error + int" where
  \<comment> \<open>\<open>int(s)\<close>: white space around an optional sign and decimal digits of
      ASCII. Underscores between digits are left out: the text \<open>combine_data\<close>
      converts is a piece of a split at \<open>_\<close>. The limit of CPython 3.11 on the
      number of digits (4300 by default) is left out too.\<close>
  "py_int s =
     (let t = py_strip s;
          neg = (t \<noteq> [] \<and> hd t = CHR ''-'');
          body = (if t \<noteq> [] \<and> (hd t = CHR ''-'' \<or> hd t = CHR ''+'') then tl t else t)
      in if body = [] then Inl ValueError
         else (case digits_value 0 body of
                 None \<Rightarrow> Inl ValueError
               | Some n \<Rightarrow> Inr (if neg then - int n else int n)))"

definition numeric_suffix :: "string \<Rightarrow> py_error + int" where
  \<comment> \<open>the sort key \<open>int(x.split("_")[-1].split(".")[-2])\<close>\<close>
  "numeric_suffix x =
     (let parts = split_on CHR ''.'' (last (split_on CHR ''_'' x))
      in if length parts < 2 then Inl IndexError
         else py_int (parts ! (length parts - 2)))"

fun map_raise :: "('a \<Rightarrow> py_error + 'b) \<Rightarrow> 'a list \<Rightarrow> py_error + 'b list" where
  "map_raise f [] = Inr []"
| "map_raise f (x # xs) =
     (case f x of
        Inl err \<Rightarrow> Inl err
      | Inr y \<Rightarrow> (case map_raise f xs of Inl err \<Rightarrow> Inl err | Inr ys \<Rightarrow> Inr (y # ys)))"

definition sorted_by_key :: "('a \<Rightarrow> py_error + int) \<Rightarrow> 'a list \<Rightarrow> py_error + 'a list" where
  \<comment> \<open>\<open>sorted(xs, key=key)\<close>: the keys are computed first, in order; the sort is
      stable\<close>
  "sorted_by_key key xs =
     (case map_raise key xs of
        Inl err \<Rightarrow> Inl err
      | Inr ks \<Rightarrow> Inr (map snd (sort_key fst (zip ks xs))))"

type_synonym columns = "pyfloat list \<times> pyfloat list \<times> pyfloat list"

fun extract_lines :: "os_env \<Rightarrow> string list \<Rightarrow> columns \<Rightarrow> py_error + columns" where
  "extract_lines E [] data = Inr data"
| "extract_lines E (line # rest) (SPD, ANG, TRQ) =
     (case split_on CHR '','' line of
        [speed, angle, torque] \<Rightarrow>
          (case py_float E (last (split_on CHR '':'' speed)) of
             Inl err \<Rightarrow> Inl err
           | Inr spd \<Rightarrow>
               (case py_float E (last (split_on CHR '':'' angle)) of
                  Inl err \<Rightarrow> Inl err
                | Inr ang \<Rightarrow>
                    (case py_float E (last (split_on CHR '':'' torque)) of
                       Inl err \<Rightarrow> Inl err
                     | Inr torq \<Rightarrow>
                         extract_lines E rest (SPD @ [spd], ANG @ [ang], TRQ @ [torq]))))
      | _ \<Rightarrow> Inl ValueError)"

fun extract_files :: "os_env \<Rightarrow> string list \<Rightarrow> columns \<Rightarrow> py_error + columns" where
  "extract_files E [] data = Inr data"
| "extract_files E (filepath # rest) data =
     (case readlines E filepath of
        Inl err \<Rightarrow> Inl err
      | Inr lines \<Rightarrow>
          (case extract_lines E lines data of
             Inl err \<Rightarrow> Inl err
           | Inr data' \<Rightarrow> extract_files E rest data'))"

text \<open>
  \<open>combine_data\<close> returns nothing; the model returns the file it writes: its path
  and the table, column by column.
\<close>

definition combine_data ::
  "os_env \<Rightarrow> string \<Rightarrow> string option \<Rightarrow> string
    \<Rightarrow> py_error + (string \<times> (string \<times> pyfloat list) list)" where
  "combine_data E source_dir target_dir outfname =
     (case (case target_dir of
              None \<Rightarrow> Inr (normpath E source_dir)
            | Some d \<Rightarrow> (case makedirs E d of Some err \<Rightarrow> Inl err | None \<Rightarrow> Inr d)) of
        Inl err \<Rightarrow> Inl err
      | Inr target \<Rightarrow>
          (case listdir E source_dir of
             Inl err \<Rightarrow> Inl err
           | Inr names \<Rightarrow>
               (case sorted_by_key numeric_suffix
                       (map (os_path_join source_dir)
                          (filter (\<lambda>f. endswith f ''txt'') names)) of
                  Inl err \<Rightarrow> Inl err
                | Inr filepaths \<Rightarrow>
                    (case extract_files E filepaths ([], [], []) of
                       Inl err \<Rightarrow> Inl err
                     | Inr (SPD, ANG, TRQ) \<Rightarrow>
                         Inr (target @ ''/'' @ outfname @ ''.csv'',
                              [(''SPD'', SPD), (''ANG'', ANG), (''TRQ'', TRQ)])))))"

text \<open>
  The rows in the words of the specification: the text after the last occurrence
  of a character, the three values of a line, and the rows of a file.
\<close>

definition after_last :: "char \<Rightarrow> string \<Rightarrow> string" where
  "after_last c s = rev (takeWhile (\<lambda>x. x \<noteq> c) (rev s))"

definition line_values :: "os_env \<Rightarrow> string \<Rightarrow> py_error + (pyfloat \<times> pyfloat \<times> pyfloat)" where
  "line_values E line =
     (case split_on CHR '','' line of
        [speed, angle, torque] \<Rightarrow>
          (case map_raise (\<lambda>field. py_float E (after_last CHR '':'' field))
                  [speed, angle, torque] of
             Inr [spd, ang, torq] \<Rightarrow> Inr (spd, ang, torq)
           | Inr other \<Rightarrow> Inl ValueError
           | Inl err \<Rightarrow> Inl err)
      | _ \<Rightarrow> Inl ValueError)"

definition file_rows :: "os_env \<Rightarrow> string \<Rightarrow> py_error + (pyfloat \<times> pyfloat \<times> pyfloat) list" where
  "file_rows E filepath =
     (case readlines E filepath of
        Inl err \<Rightarrow> Inl err
      | Inr lines \<Rightarrow> map_raise (line_values E) lines)"

section \<open>A small back end for evaluating the model\<close>

text \<open>
  A back end with one real parameter \<open>w\<close>: every element of the reconstruction is
  \<open>w\<close>, the loss is the mean absolute difference of two tensors of one shape, a step
  of the optimiser adds one to \<open>w\<close>, and a path names the file of the same string.
\<close>

fun fl_abs_diff :: "pyfloat \<Rightarrow> pyfloat \<Rightarrow> pyfloat" where
  "fl_abs_diff (Fin a) (Fin b) = Fin \<bar>a - b\<bar>"
| "fl_abs_diff _ _ = NaN"

definition toy_criterion :: "tensor \<Rightarrow> tensor \<Rightarrow> py_error + pyfloat" where
  "toy_criterion p x =
     (if t_shape p = t_shape x
      then Inr (np_mean (map2 fl_abs_diff (t_data p) (t_data x)))
      else Inl RuntimeError)"

definition toy_env_at :: "(string \<Rightarrow> 'fid) \<Rightarrow> (real, unit, 'fid) env" where
  "toy_env_at res =
     \<lparr>net_out = (\<lambda>w x i. Fin w),
      criterion = toy_criterion,
      Adam = (\<lambda>w lr. ()),
      optimizer_step = (\<lambda>opt w x. ((), w + 1)),
      resolve = res,
      mean_absolute_error = (\<lambda>t p. Inr (np_mean (map2 fl_abs_diff t p))),
      r2_score = (\<lambda>t p. Inr (Fin 0))\<rparr>"

definition toy_env :: "(real, unit, string) env" where
  "toy_env = toy_env_at (\<lambda>p. p)"

text \<open>
  The lookup of a relative path by a POSIX system ignores empty components and
  components \<open>.\<close>: \<open>a//b\<close>, \<open>a/b\<close> and \<open>./a/b\<close> name one file.
\<close>

definition posix_resolve :: "string \<Rightarrow> string list" where
  "posix_resolve p = filter (\<lambda>c. c \<noteq> [] \<and> c \<noteq> ''.'') (split_on CHR ''/'' p)"

definition posix_env :: "(real, unit, string list) env" where
  "posix_env = toy_env_at posix_resolve"

definition point :: "real \<Rightarrow> tensor" where
  \<comment> \<open>a sequence of one step with one feature\<close>
  "point v = \<lparr>t_shape = [1, 1], t_data = [Fin v]\<rparr>"

definition toy_arch :: LAE where
  "toy_arch = LAE_init 1 1 1 1"

definition toy_model :: "real \<Rightarrow> real module" where
  "toy_model w = \<lparr>arch = toy_arch, state_dict = w\<rparr>"

definition pair_arch :: LAE where
  "pair_arch = LAE_init 2 1 1 1"

definition pair :: "real \<Rightarrow> real \<Rightarrow> tensor" where
  \<comment> \<open>a sequence of two steps with one feature\<close>
  "pair a b = \<lparr>t_shape = [2, 1], t_data = [Fin a, Fin b]\<rparr>"

definition failing_env :: "(real, unit, string) env" where
  \<comment> \<open>as \<open>toy_env\<close>, but the loss function raises once the reconstruction is \<open>1\<close>\<close>
  "failing_env =
     toy_env\<lparr>criterion :=
       (\<lambda>p x. if t_data p = [Fin 1] then Inl RuntimeError else toy_criterion p x)\<rparr>"

definition scored_files :: "string \<Rightarrow> real file_content option" where
  "scored_files =
     [''training_logs/m.pth'' \<mapsto> Checkpoint (layers_of toy_arch) 0,
      ''training_logs/losses.npz'' \<mapsto> Npz [Fin 1, Fin 3] [Fin 2, Fin 2]]"

definition scored :: scores where
  "scored =
     \<lparr>sc_threshold = Fin 3, sc_reconstruction_error = [Fin 1, Fin 3],
      sc_true_values = [Fin 3, Fin 2, Fin 4], sc_predictions = [Fin 0, Fin 0, Fin 0],
      sc_losses = [Fin 3, Fin 2, Fin 4], sc_mae = Fin 3, sc_R2 = Fin 0,
      sc_correct = 2, sc_anomaly = [True, False, True]\<rparr>"

definition posix_files :: "string list \<Rightarrow> real file_content option" where
  "posix_files =
     [[''training_logs'', ''m.pth''] \<mapsto> Checkpoint (layers_of toy_arch) 2,
      [''training_logs'', ''losses.npz''] \<mapsto> Npz [Fin 1, Fin 0] [Fin 2, Fin 1]]"

text \<open>
  A directory \<open>data\<close> of two data files and a note, listed in an order that is not
  the numeric one, and a \<open>float\<close> that reads whole numbers.
\<close>

definition whole_float :: "string \<Rightarrow> py_error + pyfloat" where
  "whole_float s = (case py_int s of Inl err \<Rightarrow> Inl err | Inr i \<Rightarrow> Inr (Fin (of_int i)))"

definition data_dir :: os_env where
  "data_dir =
     \<lparr>makedirs = (\<lambda>d. None),
      listdir = (\<lambda>d. if d = ''data'' then Inr [''run_10.txt'', ''notes.md'', ''run_2.txt'']
                      else Inl FileNotFoundError),
      readlines = (\<lambda>p.
        if p = ''data/run_2.txt''
        then Inr [''SPD:1,ANG:2,TRQ:3'' @ [CHR 0x0A], ''SPD:4,ANG:5,TRQ:6'' @ [CHR 0x0A]]
        else if p = ''data/run_10.txt'' then Inr [''SPD:7,ANG:8,TRQ:9'' @ [CHR 0x0A]]
        else Inl FileNotFoundError),
      py_float = whole_float,
      normpath = (\<lambda>p. p)\<rparr>"

section \<open>Shapes of the reconstruction\<close>

lemma Decoder_forward_shape:
  "Decoder_forward (Decoder_init sl d out k) z = Inr sh \<Longrightarrow> sh = [sl, out]"
  by (auto simp: Decoder_forward_def Decoder_init_def repeat_def reshape_def
      LSTM_forward_def Linear_forward_def
      split: sum.splits if_splits list.splits prod.splits)

lemma LAE_forward_shape:
  "LAE_forward (LAE_init sl nf ed k) x = Inr sh \<Longrightarrow> sh = [sl, nf]"
  by (auto simp: LAE_forward_def LAE_init_def split: sum.splits
      dest: Decoder_forward_shape)

lemma LAE_forward_single_layer:
  assumes "0 < sl" and "0 < nf" and "0 < ed"
  shows "LAE_forward (LAE_init sl nf ed 1) [sl, nf] = Inr [sl, nf]"
  using assms
  by (simp add: LAE_forward_def LAE_init_def Encoder_forward_def Encoder_init_def
      Decoder_forward_def Decoder_init_def reshape_def reshape_rows_def repeat_def
      LSTM_forward_def Linear_forward_def)

text \<open>
  C6. The reconstruction \<open>LAE.forward\<close> of a sequence of shape
  \<open>(seq_len, n_features)\<close> has the same shape. The code misses this for an autoencoder
  built with \<open>num_layers = 2\<close>: the encoder returns the final hidden state of every
  layer, \<open>(2, embedding_dim)\<close>, and the decoder's reshape of the repeated embedding
  to \<open>(1, seq_len, input_dim)\<close> raises.
\<close>

theorem LAE_forward_two_layers_raises:
  "LAE_forward (LAE_init 2 1 1 2) [2, 1] = Inl RuntimeError"
  by (simp add: LAE_forward_def LAE_init_def Encoder_forward_def Encoder_init_def
      Decoder_forward_def Decoder_init_def reshape_def reshape_rows_def repeat_def
      LSTM_forward_def Linear_forward_def)

section \<open>Training: persistence and the loss history\<close>

lemma train_loop_length:
  "train_loop E a xs (opt, w, ls) = (None, (opt', w', ls'))
    \<Longrightarrow> length ls' = length ls + length xs"
proof (induction xs arbitrary: opt w ls)
  case Nil
  then show ?case by simp
next
  case (Cons x xs)
  then show ?case
    by (auto split: sum.splits prod.splits)
qed

lemma val_loop_length:
  "val_loop E m xs ls = Inr ls' \<Longrightarrow> length ls' = length ls + length xs"
proof (induction xs arbitrary: ls)
  case Nil
  then show ?case by simp
next
  case (Cons x xs)
  then show ?case
    by (auto split: sum.splits)
qed

lemma fit_epochs_history:
  "fit_epochs E a tr va k (opt, w, h) = (None, (opt', w', h'))
    \<Longrightarrow> h' ''train loss'' = h ''train loss'' @ map (np_mean \<circ> fst) (epoch_losses E a tr va k (opt, w))
      \<and> h' ''val loss'' = h ''val loss'' @ map (np_mean \<circ> snd) (epoch_losses E a tr va k (opt, w))
      \<and> length (epoch_losses E a tr va k (opt, w)) = k
      \<and> (\<forall>key. key \<noteq> ''train loss'' \<longrightarrow> key \<noteq> ''val loss'' \<longrightarrow> h' key = h key)"
proof (induction k arbitrary: opt w h)
  case 0
  then show ?case by simp
next
  case (Suc k)
  from Suc.prems obtain o1 w1 tl vl where
    tl: "train_loop E a tr (opt, w, []) = (None, (o1, w1, tl))" and
    vl: "val_loop E \<lparr>arch = a, state_dict = w1\<rparr> va [] = Inr vl" and
    rest: "fit_epochs E a tr va k
        (o1, w1, h(''train loss'' := h ''train loss'' @ [np_mean tl],
                   ''val loss'' := h ''val loss'' @ [np_mean vl])) = (None, (opt', w', h'))"
    by (auto split: prod.splits option.splits sum.splits)
  from Suc.IH [OF rest] tl vl show ?case
    by simp
qed

lemma epoch_losses_lengths:
  "list_all (\<lambda>p. length (fst p) = length tr \<and> length (snd p) = length va)
     (epoch_losses E a tr va k (opt, w))"
proof (induction k arbitrary: opt w)
  case 0
  then show ?case by simp
next
  case (Suc k)
  then show ?case
    by (auto split: prod.splits option.splits sum.splits
        dest: train_loop_length val_loop_length)
qed

lemma fit_Inr:
  assumes "fit E self fs model tr va n lr = (Inr h, self', model', fs')"
  shows "\<exists>opt w.
      fit_epochs E (arch model) tr va (nat n)
        (Adam E (state_dict model) lr, state_dict model, history self) = (None, (opt, w, h))
      \<and> self' = self\<lparr>history := h\<rparr> \<and> model' = model\<lparr>state_dict := w\<rparr>
      \<and> fs' = fs(resolve E (checkpoint_path self) \<mapsto> Checkpoint (layers_of (arch model)) w,
                 resolve E (losses_path self) \<mapsto> Npz (h ''train loss'') (h ''val loss''))"
  using assms unfolding fit_def
  by (auto split: prod.splits option.splits)

lemma fit_Inl:
  assumes "fit E self fs model tr va n lr = (Inl err, self', model', fs')"
  shows "fs' = fs"
  using assms unfolding fit_def
  by (auto split: prod.splits option.splits)

lemma fit_history_appends:
  assumes "fit E self fs model tr va n lr = (Inr h, self', model', fs')"
  shows "h ''train loss'' = history self ''train loss'' @
           map (np_mean \<circ> fst) (epoch_losses E (arch model) tr va (nat n)
             (Adam E (state_dict model) lr, state_dict model))"
    and "h ''val loss'' = history self ''val loss'' @
           map (np_mean \<circ> snd) (epoch_losses E (arch model) tr va (nat n)
             (Adam E (state_dict model) lr, state_dict model))"
    and "length (epoch_losses E (arch model) tr va (nat n)
             (Adam E (state_dict model) lr, state_dict model)) = nat n"
    and "history self' = h"
proof -
  from fit_Inr [OF assms] obtain opt w where
    ep: "fit_epochs E (arch model) tr va (nat n)
        (Adam E (state_dict model) lr, state_dict model, history self) = (None, (opt, w, h))"
    and self': "self' = self\<lparr>history := h\<rparr>"
    by blast
  from fit_epochs_history [OF ep]
  show "h ''train loss'' = history self ''train loss'' @
           map (np_mean \<circ> fst) (epoch_losses E (arch model) tr va (nat n)
             (Adam E (state_dict model) lr, state_dict model))"
    and "h ''val loss'' = history self ''val loss'' @
           map (np_mean \<circ> snd) (epoch_losses E (arch model) tr va (nat n)
             (Adam E (state_dict model) lr, state_dict model))"
    and "length (epoch_losses E (arch model) tr va (nat n)
             (Adam E (state_dict model) lr, state_dict model)) = nat n"
    by blast+
  from self' show "history self' = h" by simp
qed








lemma np_mean_Fin:
  "rs \<noteq> [] \<Longrightarrow> np_mean (map Fin rs) = Fin (sum_list rs / real (length rs))"
proof -
  have "fins (map Fin rs) = Some rs"
    by (induction rs) simp_all
  then show "rs \<noteq> [] \<Longrightarrow> np_mean (map Fin rs) = Fin (sum_list rs / real (length rs))"
    by (simp add: np_mean_def mean_real_def)
qed

section \<open>Evaluation with the small back end\<close>

lemma LAE_forward_point [simp]: "LAE_forward toy_arch [Suc 0, Suc 0] = Inr [Suc 0, Suc 0]"
  using LAE_forward_single_layer [of 1 1 1] by (simp add: toy_arch_def)

lemma toy_model_call [simp]:
  "model_call toy_env \<lparr>arch = toy_arch, state_dict = w\<rparr> (point v) = Inr (point w)"
  by (simp add: model_call_def point_def toy_env_def toy_env_at_def)

lemma toy_criterion_point [simp]: "toy_criterion (point a) (point b) = Inr (Fin \<bar>a - b\<bar>)"
  by (simp add: toy_criterion_def point_def np_mean_def mean_real_def)

lemma toy_env_fields [simp]:
  "criterion toy_env = toy_criterion"
  "optimizer_step toy_env opt w x = ((), w + 1)"
  "Adam toy_env w lr = ()"
  "resolve toy_env p = p"
  by (simp_all add: toy_env_def toy_env_at_def)

lemma np_mean_single [simp]: "np_mean [Fin a] = Fin a"
  by (simp add: np_mean_def mean_real_def)

lemma toy_fit_two_epochs:
  "fit toy_env (Trainer_init ''logs'' ''m'') Map.empty (toy_model 0) [point 1] [point 3] 2 lr
   = (Inr ((\<lambda>k. [])(''train loss'' := [Fin 1, Fin 0], ''val loss'' := [Fin 2, Fin 1])),
      \<lparr>log_dir = ''logs'', model_name = ''m'',
       history = (\<lambda>k. [])(''train loss'' := [Fin 1, Fin 0], ''val loss'' := [Fin 2, Fin 1])\<rparr>,
      toy_model 2,
      [''logs/m.pth'' \<mapsto> Checkpoint (layers_of toy_arch) 2,
       ''logs/losses.npz'' \<mapsto> Npz [Fin 1, Fin 0] [Fin 2, Fin 1]])"
  by (simp add: fit_def Trainer_init_def toy_model_def eval_nat_numeral
      checkpoint_path_def losses_path_def np_savez_path_def endswith_def)

lemma failing_env_fields [simp]:
  "criterion failing_env p x =
     (if t_data p = [Fin 1] then Inl RuntimeError else toy_criterion p x)"
  "optimizer_step failing_env opt w x = ((), w + 1)"
  "Adam failing_env w lr = ()"
  "resolve failing_env q = q"
  by (simp_all add: failing_env_def toy_env_def toy_env_at_def)

lemma failing_model_call [simp]:
  "model_call failing_env \<lparr>arch = toy_arch, state_dict = w\<rparr> (point v) = Inr (point w)"
  by (simp add: model_call_def point_def failing_env_def toy_env_def toy_env_at_def)

lemma t_data_point [simp]: "t_data (point v) = [Fin v]"
  by (simp add: point_def)

lemma np_mean_Nil [simp]: "np_mean [] = NaN"
  by (simp add: np_mean_def)


lemma toy_epoch_losses_two_sequences:
  "epoch_losses toy_env toy_arch [point 1, point 4] [point 3, point 6] 2 ((), 0)
   = [([Fin 1, Fin 3], [Fin 1, Fin 4]), ([Fin 1, Fin 1], [Fin 1, Fin 2])]"
  by (simp add: eval_nat_numeral)

lemma toy_fit_two_sequences:
  "fit toy_env (Trainer_init ''logs'' ''m'') Map.empty (toy_model 0)
     [point 1, point 4] [point 3, point 6] 2 lr
   = (Inr ((\<lambda>k. [])(''train loss'' := [Fin 2, Fin 1],
                      ''val loss'' := [Fin (5 / 2), Fin (3 / 2)])),
      \<lparr>log_dir = ''logs'', model_name = ''m'',
       history = (\<lambda>k. [])(''train loss'' := [Fin 2, Fin 1],
                           ''val loss'' := [Fin (5 / 2), Fin (3 / 2)])\<rparr>,
      toy_model 4,
      [''logs/m.pth'' \<mapsto> Checkpoint (layers_of toy_arch) 4,
       ''logs/losses.npz'' \<mapsto> Npz [Fin 2, Fin 1] [Fin (5 / 2), Fin (3 / 2)]])"
  by (simp add: fit_def Trainer_init_def toy_model_def eval_nat_numeral
      checkpoint_path_def losses_path_def np_savez_path_def endswith_def
      np_mean_def mean_real_def)


section \<open>Claims about \<open>Trainer.fit\<close>\<close>




text \<open>
  C5. In every epoch of \<open>Trainer.fit\<close> the recorded training loss is the arithmetic
  mean (\<open>np.mean\<close>) of the losses of the training sequences of that epoch, one loss
  for each sequence, and likewise for validation: for finite losses, their sum
  divided by their number. One training mean and one validation mean are appended
  per epoch, so that after \<open>fit\<close> on a fresh trainer each list of the history has
  \<open>num_epochs\<close> entries (none for a negative number).
\<close>

theorem fit_history_epoch_means:
  assumes "fit E (Trainer_init ld mn) fs model tr va num_epochs lr = (Inr h, self', model', fs')"
  shows "h ''train loss'' = map (np_mean \<circ> fst)
             (epoch_losses E (arch model) tr va (nat num_epochs)
               (Adam E (state_dict model) lr, state_dict model))
       \<and> h ''val loss'' = map (np_mean \<circ> snd)
             (epoch_losses E (arch model) tr va (nat num_epochs)
               (Adam E (state_dict model) lr, state_dict model))
       \<and> list_all (\<lambda>p. length (fst p) = length tr \<and> length (snd p) = length va)
             (epoch_losses E (arch model) tr va (nat num_epochs)
               (Adam E (state_dict model) lr, state_dict model))
       \<and> length (h ''train loss'') = nat num_epochs
       \<and> length (h ''val loss'') = nat num_epochs
       \<and> history self' = h
       \<and> (\<forall>i rs. i < nat num_epochs \<longrightarrow> rs \<noteq> []
            \<longrightarrow> fst (epoch_losses E (arch model) tr va (nat num_epochs)
                      (Adam E (state_dict model) lr, state_dict model) ! i) = map Fin rs
            \<longrightarrow> h ''train loss'' ! i = Fin (sum_list rs / real (length rs)))
       \<and> (\<forall>i rs. i < nat num_epochs \<longrightarrow> rs \<noteq> []
            \<longrightarrow> snd (epoch_losses E (arch model) tr va (nat num_epochs)
                      (Adam E (state_dict model) lr, state_dict model) ! i) = map Fin rs
            \<longrightarrow> h ''val loss'' ! i = Fin (sum_list rs / real (length rs)))"
proof -
  note app = fit_history_appends [OF assms]
  let ?ls = "epoch_losses E (arch model) tr va (nat num_epochs)
               (Adam E (state_dict model) lr, state_dict model)"
  have tr: "h ''train loss'' = map (np_mean \<circ> fst) ?ls"
    using app(1) by (simp add: Trainer_init_def)
  have va: "h ''val loss'' = map (np_mean \<circ> snd) ?ls"
    using app(2) by (simp add: Trainer_init_def)
  have len: "length ?ls = nat num_epochs"
    using app(3) .
  have ltr: "length (h ''train loss'') = nat num_epochs"
    using tr len by simp
  have lva: "length (h ''val loss'') = nat num_epochs"
    using va len by simp
  have lens: "list_all (\<lambda>p. length (fst p) = length tr \<and> length (snd p) = length va) ?ls"
    by (rule epoch_losses_lengths)
  have mtr: "h ''train loss'' ! i = Fin (sum_list rs / real (length rs))"
    if "i < nat num_epochs" "rs \<noteq> []" "fst (?ls ! i) = map Fin rs" for i rs
  proof -
    from that(1) len tr have "h ''train loss'' ! i = np_mean (fst (?ls ! i))"
      by simp
    with that(2,3) np_mean_Fin show ?thesis by simp
  qed
  have mva: "h ''val loss'' ! i = Fin (sum_list rs / real (length rs))"
    if "i < nat num_epochs" "rs \<noteq> []" "snd (?ls ! i) = map Fin rs" for i rs
  proof -
    from that(1) len va have "h ''val loss'' ! i = np_mean (snd (?ls ! i))"
      by simp
    with that(2,3) np_mean_Fin show ?thesis by simp
  qed
  from tr va lens ltr lva app(4) mtr mva show ?thesis
    by (intro conjI allI impI) blast+
qed

theorem fit_history_epoch_means_witness:
  "fit toy_env (Trainer_init ''logs'' ''m'') Map.empty (toy_model 0)
     [point 1, point 4] [point 3, point 6] 2 0.001
   = (Inr ((\<lambda>k. [])(''train loss'' := [Fin 2, Fin 1],
                      ''val loss'' := [Fin (5 / 2), Fin (3 / 2)])),
      \<lparr>log_dir = ''logs'', model_name = ''m'',
       history = (\<lambda>k. [])(''train loss'' := [Fin 2, Fin 1],
                           ''val loss'' := [Fin (5 / 2), Fin (3 / 2)])\<rparr>,
      toy_model 4,
      [''logs/m.pth'' \<mapsto> Checkpoint (layers_of toy_arch) 4,
       ''logs/losses.npz'' \<mapsto> Npz [Fin 2, Fin 1] [Fin (5 / 2), Fin (3 / 2)]])
   \<and> epoch_losses toy_env toy_arch [point 1, point 4] [point 3, point 6] 2 ((), 0)
       = [(map Fin [1, 3], map Fin [1, 4]), (map Fin [1, 1], map Fin [1, 2])]
   \<and> [Fin 2, Fin 1] ! 0 = Fin (sum_list [1, 3] / real (length [1, 3 :: real]))
   \<and> [Fin (5 / 2), Fin (3 / 2)] ! 0 = Fin (sum_list [1, 4] / real (length [1, 4 :: real]))
   \<and> [Fin (5 / 2), Fin (3 / 2)] ! 1 = Fin (sum_list [1, 2] / real (length [1, 2 :: real]))
   \<and> length [Fin 2, Fin 1 :: pyfloat] = nat 2"
  using fit_history_epoch_means [OF toy_fit_two_sequences [of "0.001"]]
    toy_fit_two_sequences [of "0.001"] toy_epoch_losses_two_sequences
  by (simp add: toy_model_def)

text \<open>
  C10. The history of a trainer is created empty at construction and \<open>fit\<close> never
  clears it: a second call on the same trainer appends its means per epoch after
  those of the first call, and the archive it writes holds the entries of both calls.
\<close>

theorem second_fit_appends_to_history:
  assumes "fit E (Trainer_init ld mn) fs model tr va n1 lr = (Inr h1, self1, model1, fs1)"
    and "fit E self1 fs1 model2 tr2 va2 n2 lr2 = (Inr h2, self2, model3, fs2)"
  shows "fs2 (resolve E (losses_path self1)) = Some (Npz (h2 ''train loss'') (h2 ''val loss''))
       \<and> h2 ''train loss'' = h1 ''train loss'' @ map (np_mean \<circ> fst)
             (epoch_losses E (arch model2) tr2 va2 (nat n2)
               (Adam E (state_dict model2) lr2, state_dict model2))
       \<and> h2 ''val loss'' = h1 ''val loss'' @ map (np_mean \<circ> snd)
             (epoch_losses E (arch model2) tr2 va2 (nat n2)
               (Adam E (state_dict model2) lr2, state_dict model2))
       \<and> length (h1 ''train loss'') = nat n1
       \<and> length (h2 ''train loss'') = nat n1 + nat n2
       \<and> length (h2 ''val loss'') = nat n1 + nat n2"
proof -
  note first = fit_history_appends [OF assms(1)]
  note second = fit_history_appends [OF assms(2)]
  have len1: "length (h1 ''train loss'') = nat n1" "length (h1 ''val loss'') = nat n1"
    using first(1,2,3) by (simp_all add: Trainer_init_def)
  have tr: "h2 ''train loss'' = h1 ''train loss'' @ map (np_mean \<circ> fst)
             (epoch_losses E (arch model2) tr2 va2 (nat n2)
               (Adam E (state_dict model2) lr2, state_dict model2))"
    using second(1) first(4) by simp
  have va: "h2 ''val loss'' = h1 ''val loss'' @ map (np_mean \<circ> snd)
             (epoch_losses E (arch model2) tr2 va2 (nat n2)
               (Adam E (state_dict model2) lr2, state_dict model2))"
    using second(2) first(4) by simp
  have archive: "fs2 (resolve E (losses_path self1))
      = Some (Npz (h2 ''train loss'') (h2 ''val loss''))"
    using fit_Inr [OF assms(2)] by auto
  have "length (h2 ''train loss'') = nat n1 + nat n2"
    using tr len1(1) second(3) by simp
  moreover have "length (h2 ''val loss'') = nat n1 + nat n2"
    using va len1(2) second(3) by simp
  ultimately show ?thesis
    using archive tr va len1(1) by (intro conjI) assumption+
qed

lemma toy_fit_again:
  "fit toy_env
     \<lparr>log_dir = ''logs'', model_name = ''m'',
      history = (\<lambda>k. [])(''train loss'' := [Fin 1, Fin 0], ''val loss'' := [Fin 2, Fin 1])\<rparr>
     [''logs/m.pth'' \<mapsto> Checkpoint (layers_of toy_arch) 2,
      ''logs/losses.npz'' \<mapsto> Npz [Fin 1, Fin 0] [Fin 2, Fin 1]]
     (toy_model 2) [point 1] [point 3] 1 lr
   = (Inr ((\<lambda>k. [])(''train loss'' := [Fin 1, Fin 0, Fin 1],
                      ''val loss'' := [Fin 2, Fin 1, Fin 0])),
      \<lparr>log_dir = ''logs'', model_name = ''m'',
       history = (\<lambda>k. [])(''train loss'' := [Fin 1, Fin 0, Fin 1],
                           ''val loss'' := [Fin 2, Fin 1, Fin 0])\<rparr>,
      toy_model 3,
      [''logs/m.pth'' \<mapsto> Checkpoint (layers_of toy_arch) 3,
       ''logs/losses.npz'' \<mapsto> Npz [Fin 1, Fin 0, Fin 1] [Fin 2, Fin 1, Fin 0]])"
  by (simp add: fit_def toy_model_def eval_nat_numeral
      checkpoint_path_def losses_path_def np_savez_path_def endswith_def)

theorem second_fit_appends_to_history_witness:
  "fit toy_env (Trainer_init ''logs'' ''m'') Map.empty (toy_model 0) [point 1] [point 3] 2 0.001
   = (Inr ((\<lambda>k. [])(''train loss'' := [Fin 1, Fin 0], ''val loss'' := [Fin 2, Fin 1])),
      \<lparr>log_dir = ''logs'', model_name = ''m'',
       history = (\<lambda>k. [])(''train loss'' := [Fin 1, Fin 0], ''val loss'' := [Fin 2, Fin 1])\<rparr>,
      toy_model 2,
      [''logs/m.pth'' \<mapsto> Checkpoint (layers_of toy_arch) 2,
       ''logs/losses.npz'' \<mapsto> Npz [Fin 1, Fin 0] [Fin 2, Fin 1]])
   \<and> fit toy_env
     \<lparr>log_dir = ''logs'', model_name = ''m'',
      history = (\<lambda>k. [])(''train loss'' := [Fin 1, Fin 0], ''val loss'' := [Fin 2, Fin 1])\<rparr>
     [''logs/m.pth'' \<mapsto> Checkpoint (layers_of toy_arch) 2,
      ''logs/losses.npz'' \<mapsto> Npz [Fin 1, Fin 0] [Fin 2, Fin 1]]
     (toy_model 2) [point 1] [point 3] 1 0.001
   = (Inr ((\<lambda>k. [])(''train loss'' := [Fin 1, Fin 0, Fin 1],
                      ''val loss'' := [Fin 2, Fin 1, Fin 0])),
      \<lparr>log_dir = ''logs'', model_name = ''m'',
       history = (\<lambda>k. [])(''train loss'' := [Fin 1, Fin 0, Fin 1],
                           ''val loss'' := [Fin 2, Fin 1, Fin 0])\<rparr>,
      toy_model 3,
      [''logs/m.pth'' \<mapsto> Checkpoint (layers_of toy_arch) 3,
       ''logs/losses.npz'' \<mapsto> Npz [Fin 1, Fin 0, Fin 1] [Fin 2, Fin 1, Fin 0]])
   \<and> [''logs/m.pth'' \<mapsto> Checkpoint (layers_of toy_arch) (3 :: real),
       ''logs/losses.npz'' \<mapsto> Npz [Fin 1, Fin 0, Fin 1] [Fin 2, Fin 1, Fin 0]]
        ''logs/losses.npz''
      = Some (Npz ([Fin 1, Fin 0] @ [Fin 1]) ([Fin 2, Fin 1] @ [Fin 0]))"
  using second_fit_appends_to_history
    [OF toy_fit_two_epochs [of "0.001"] toy_fit_again [of "0.001"]]
    toy_fit_two_epochs [of "0.001"] toy_fit_again [of "0.001"]
  by simp

section \<open>Claims about \<open>Trainer.predict\<close>\<close>

lemma model_call_shape:
  assumes "model_call E m x = Inr p" and "arch m = LAE_init sl nf ed k"
  shows "t_shape p = [sl, nf]" and "length (t_data p) = sl * nf"
proof -
  from assms obtain sh where sh: "LAE_forward (LAE_init sl nf ed k) (t_shape x) = Inr sh"
    and p: "p = \<lparr>t_shape = sh, t_data = map (net_out E (state_dict m) x) [0..<prod_list sh]\<rparr>"
    by (auto simp: model_call_def split: sum.splits)
  from LAE_forward_shape [OF sh] have "sh = [sl, nf]" .
  with p show "t_shape p = [sl, nf]" and "length (t_data p) = sl * nf"
    by simp_all
qed

lemma predict_loop_lengths:
  assumes "predict_loop E m ds (ps, ls) = Inr (ps', ls')" and "arch m = LAE_init sl nf ed k"
    and "list_all (\<lambda>q. length q = sl * nf) ps"
  shows "length ps' = length ps + length ds \<and> length ls' = length ls + length ds
       \<and> list_all (\<lambda>q. length q = sl * nf) ps'"
  using assms
proof (induction ds arbitrary: ps ls)
  case Nil
  then show ?case by simp
next
  case (Cons x xs)
  from Cons.prems(1) obtain p loss where
    p: "model_call E m x = Inr p" and
    rest: "predict_loop E m xs (ps @ [t_data p], ls @ [loss]) = Inr (ps', ls')"
    by (auto split: sum.splits)
  have "list_all (\<lambda>q. length q = sl * nf) (ps @ [t_data p])"
    using Cons.prems(3) model_call_shape(2) [OF p Cons.prems(2)] by simp
  from Cons.IH [OF rest Cons.prems(2) this] show ?case by simp
qed

lemma length_concat_uniform:
  "list_all (\<lambda>q. length q = n) rows \<Longrightarrow> length (concat rows) = length rows * n"
  by (induction rows) simp_all

lemma np_array_rows_uniform:
  assumes "list_all (\<lambda>q. length q = n) rows"
  shows "\<exists>arr. np_array_rows rows = Inr arr \<and> prod_list (t_shape arr) = length rows * n
       \<and> t_data arr = concat rows"
proof (cases rows)
  case Nil
  then show ?thesis by (simp add: np_array_rows_def)
next
  case (Cons r rs)
  with assms have "length r = n" and "list_all (\<lambda>q. length q = length r) rs"
    by (simp_all add: list_all_iff)
  with Cons show ?thesis by (simp add: np_array_rows_def)
qed

lemma predict_Inr:
  assumes "predict E self fs model model_path dataset = Inr (predictions, losses)"
    and "arch model = LAE_init sl nf ed k"
  shows "t_shape predictions = [length dataset * (sl * nf), 1]"
    and "length (t_data predictions) = length dataset * (sl * nf)"
    and "t_shape losses = [length dataset, 1]"
    and "length (t_data losses) = length dataset"
proof -
  from assms(1) obtain ckpt loaded ps ls arr where
    ld: "load_state_dict model ckpt = Inr loaded" and
    loop: "predict_loop E loaded dataset ([], []) = Inr (ps, ls)" and
    arr: "np_array_rows ps = Inr arr" and
    res: "predictions = reshape_column arr" "losses = reshape_column (np_array_floats ls)"
    by (auto simp: predict_def split: sum.splits prod.splits)
  from ld assms(2) have "arch loaded = LAE_init sl nf ed k"
    by (auto simp: load_state_dict_def split: if_splits)
  from predict_loop_lengths [OF loop this] have
    len: "length ps = length dataset" "length ls = length dataset"
    and uni: "list_all (\<lambda>q. length q = sl * nf) ps"
    by simp_all
  from np_array_rows_uniform [OF uni] arr len(1) have
    "prod_list (t_shape arr) = length dataset * (sl * nf)" "t_data arr = concat ps"
    by auto
  with res(1) length_concat_uniform [OF uni] len(1)
  show "t_shape predictions = [length dataset * (sl * nf), 1]"
    and "length (t_data predictions) = length dataset * (sl * nf)"
    by (simp_all add: reshape_column_def)
  from res(2) len(2)
  show "t_shape losses = [length dataset, 1]" and "length (t_data losses) = length dataset"
    by (simp_all add: reshape_column_def np_array_floats_def)
qed

text \<open>
  C3, as the code has it. For an autoencoder built for \<open>seq_len\<close> steps of
  \<open>n_features\<close> features, \<open>Trainer.predict\<close> returns the predictions as an array of
  shape \<open>(N, 1)\<close>, where \<open>N\<close> is the number of input sequences times
  \<open>seq_len * n_features\<close>, and the losses as an array of shape \<open>(M, 1)\<close>, where \<open>M\<close>
  is the number of input sequences: one loss per sequence.
\<close>

theorem predict_shapes:
  assumes "predict E self fs model model_path dataset = Inr (predictions, losses)"
    and "arch model = LAE_init sl nf ed k"
  shows "t_shape predictions = [length dataset * (sl * nf), 1]
       \<and> length (t_data predictions) = length dataset * (sl * nf)
       \<and> t_shape losses = [length dataset, 1]
       \<and> length (t_data losses) = length dataset"
  using predict_Inr [OF assms] by simp

lemma LAE_forward_pair_arch [simp]: "LAE_forward pair_arch [2, Suc 0] = Inr [2, Suc 0]"
  using LAE_forward_single_layer [of 2 1 1] by (simp add: pair_arch_def)

lemma toy_model_call_pair [simp]:
  "model_call toy_env \<lparr>arch = pair_arch, state_dict = w\<rparr> (pair a b) = Inr (pair w w)"
  by (simp add: model_call_def pair_def toy_env_def toy_env_at_def upt_rec [of 0] upt_rec [of 1]
      upt_rec [of 2] upt_rec [of "Suc 0"])

lemma toy_criterion_pair [simp]:
  "toy_criterion (pair w v) (pair a b) = Inr (Fin ((\<bar>w - a\<bar> + \<bar>v - b\<bar>) / 2))"
  by (simp add: toy_criterion_def pair_def np_mean_def mean_real_def)

lemma t_data_pair [simp]: "t_data (pair a b) = [Fin a, Fin b]"
  by (simp add: pair_def)

lemma toy_predict_one_pair:
  "predict toy_env (Trainer_init ''logs'' ''m'')
     [''logs/m.pth'' \<mapsto> Checkpoint (layers_of pair_arch) 0]
     \<lparr>arch = pair_arch, state_dict = 7\<rparr> ''logs/m.pth'' [pair 1 2]
   = Inr (\<lparr>t_shape = [2, 1], t_data = [Fin 0, Fin 0]\<rparr>,
          \<lparr>t_shape = [1, 1], t_data = [Fin (3 / 2)]\<rparr>)"
  by (simp add: predict_def torch_load_def load_state_dict_def np_array_rows_def
      np_array_floats_def reshape_column_def)

lemma toy_predict_two_pairs:
  "predict toy_env (Trainer_init ''logs'' ''m'')
     [''logs/m.pth'' \<mapsto> Checkpoint (layers_of pair_arch) 0]
     \<lparr>arch = pair_arch, state_dict = 7\<rparr> ''logs/m.pth'' [pair 1 2, pair 4 0]
   = Inr (\<lparr>t_shape = [4, 1], t_data = [Fin 0, Fin 0, Fin 0, Fin 0]\<rparr>,
          \<lparr>t_shape = [2, 1], t_data = [Fin (3 / 2), Fin 2]\<rparr>)"
  by (simp add: predict_def torch_load_def load_state_dict_def np_array_rows_def
      np_array_floats_def reshape_column_def)

theorem predict_shapes_witness:
  "predict toy_env (Trainer_init ''logs'' ''m'')
     [''logs/m.pth'' \<mapsto> Checkpoint (layers_of pair_arch) 0]
     \<lparr>arch = pair_arch, state_dict = 7\<rparr> ''logs/m.pth'' [pair 1 2, pair 4 0]
   = Inr (\<lparr>t_shape = [4, 1], t_data = [Fin 0, Fin 0, Fin 0, Fin 0]\<rparr>,
          \<lparr>t_shape = [2, 1], t_data = [Fin (3 / 2), Fin 2]\<rparr>)
   \<and> arch \<lparr>arch = pair_arch, state_dict = 7 :: real\<rparr> = LAE_init 2 1 1 1
   \<and> [4, 1] = [length [pair 1 2, pair 4 0] * (2 * 1), 1]
   \<and> [2, 1] = [length [pair 1 2, pair 4 0], 1]"
  using predict_shapes [OF toy_predict_two_pairs, of 2 1 1 1] toy_predict_two_pairs
  by (simp add: pair_arch_def)

text \<open>
  C3 as the claim has it gives the losses the shape \<open>(N, 1)\<close> of the predictions.
  For one sequence of two steps the predictions have shape \<open>(2, 1)\<close> and the losses
  shape \<open>(1, 1)\<close>.
\<close>

theorem predict_losses_shape_counterexample:
  "predict toy_env (Trainer_init ''logs'' ''m'')
     [''logs/m.pth'' \<mapsto> Checkpoint (layers_of pair_arch) 0]
     \<lparr>arch = pair_arch, state_dict = 7\<rparr> ''logs/m.pth'' [pair 1 2]
   = Inr (\<lparr>t_shape = [2, 1], t_data = [Fin 0, Fin 0]\<rparr>,
          \<lparr>t_shape = [1, 1], t_data = [Fin (3 / 2)]\<rparr>)
   \<and> pair_arch = LAE_init 2 1 1 1
   \<and> t_shape (pair 1 2) = [2, 1]
   \<and> [1, 1] \<noteq> [length [pair 1 2] * (2 * 1), 1]"
  using toy_predict_one_pair by (simp add: pair_arch_def pair_def)

section \<open>Claims about the anomaly scoring of \<open>Trainer.plot_prediction\<close>\<close>

lemma predict_loop_losses_length:
  "predict_loop E m ds (ps, ls) = Inr (ps', ls') \<Longrightarrow> length ls' = length ls + length ds"
proof (induction ds arbitrary: ps ls)
  case Nil
  then show ?case by simp
next
  case (Cons x xs)
  then show ?case by (auto split: sum.splits)
qed

lemma predict_losses_length:
  assumes "predict E self fs model model_path dataset = Inr (predictions, losses)"
  shows "length (t_data losses) = length dataset"
proof -
  from assms obtain loaded ps ls where
    loop: "predict_loop E loaded dataset ([], []) = Inr (ps, ls)" and
    res: "losses = reshape_column (np_array_floats ls)"
    by (auto simp: predict_def split: sum.splits prod.splits)
  from predict_loop_losses_length [OF loop] res show ?thesis
    by (simp add: reshape_column_def np_array_floats_def)
qed

lemma scoring_Inr:
  assumes "scoring E self fs dataset model model_path scaler = Inr s"
  shows "\<exists>predictions losses re.
      predict E self fs model model_path dataset = Inr (predictions, losses)
      \<and> load_train_loss E fs = Inr re
      \<and> sc_threshold s = threshold_of re
      \<and> sc_reconstruction_error s = re
      \<and> sc_losses s = t_data losses
      \<and> sc_anomaly s = map (\<lambda>l. fl_ge l (threshold_of re)) (t_data losses)"
  using assms unfolding scoring_def
  by (auto split: sum.splits prod.splits)

lemma load_train_loss_Inr:
  "load_train_loss E fs = Inr re
    \<Longrightarrow> \<exists>val_loss. fs (resolve E ''training_logs/losses.npz'') = Some (Npz re val_loss)"
  by (auto simp: load_train_loss_def split: option.splits file_content.splits)

text \<open>
  C1. In the scoring of \<open>plot_prediction\<close> the threshold is the mean plus the
  standard deviation (\<open>np.mean\<close>, \<open>np.std\<close>) of the array \<open>train_loss\<close> of the
  archive at \<open>training_logs/losses.npz\<close>, the history of training losses saved
  before; it is the same for every trainer, dataset, model, checkpoint and scaler
  that is scored with these files, so it never comes from the data being scored.
\<close>

theorem threshold_from_training_losses:
  assumes "scoring E self fs dataset model model_path scaler = Inr s"
  shows "\<exists>train_loss val_loss.
      fs (resolve E ''training_logs/losses.npz'') = Some (Npz train_loss val_loss)
      \<and> sc_threshold s = fl_add (np_mean train_loss) (np_std train_loss)
      \<and> (\<forall>self2 dataset2 model2 model_path2 scaler2 s2.
            scoring E self2 fs dataset2 model2 model_path2 scaler2 = Inr s2
            \<longrightarrow> sc_threshold s2 = sc_threshold s)"
proof -
  from scoring_Inr [OF assms] obtain re where
    re: "load_train_loss E fs = Inr re" and thr: "sc_threshold s = threshold_of re"
    by blast
  from load_train_loss_Inr [OF re] obtain vl where
    npz: "fs (resolve E ''training_logs/losses.npz'') = Some (Npz re vl)"
    by blast
  have "sc_threshold s2 = sc_threshold s"
    if "scoring E self2 fs dataset2 model2 model_path2 scaler2 = Inr s2"
    for self2 dataset2 model2 model_path2 scaler2 s2
  proof -
    from scoring_Inr [OF that] obtain re2 where
      "load_train_loss E fs = Inr re2" and "sc_threshold s2 = threshold_of re2"
      by blast
    with re thr show ?thesis by simp
  qed
  with npz thr show ?thesis
    unfolding threshold_of_def by blast
qed

text \<open>
  C2. For every scored sample the anomaly label is true exactly when its loss is
  greater than or equal to the threshold (\<open>>=\<close>), in the array \<open>anomaly\<close> and in the
  column \<open>Anomaly\<close> of the table written; a sample whose loss equals the threshold is
  labelled anomalous.
\<close>

theorem anomaly_label_iff_loss_ge_threshold:
  assumes "scoring E self fs dataset model model_path scaler = Inr s"
  shows "sc_anomaly s = map (\<lambda>l. fl_ge l (sc_threshold s)) (sc_losses s)
       \<and> length (sc_losses s) = length dataset
       \<and> (\<forall>i < length (sc_losses s).
            sc_losses s ! i = sc_threshold s \<longrightarrow> sc_threshold s \<noteq> NaN
            \<longrightarrow> sc_anomaly s ! i)
       \<and> (\<forall>fs'. plot_prediction E self fs dataset model model_path scaler show_plot
                   = (Inr (), fs')
            \<longrightarrow> fs' (resolve E ''training_logs/anomaly.csv'')
                = Some (AnomalyCsv (sc_true_values s) (sc_predictions s) (sc_losses s)
                         (map (\<lambda>l. fl_ge l (sc_threshold s)) (sc_losses s))))"
proof -
  from scoring_Inr [OF assms] obtain predictions losses re where
    pr: "predict E self fs model model_path dataset = Inr (predictions, losses)" and
    thr: "sc_threshold s = threshold_of re" and
    ls: "sc_losses s = t_data losses" and
    an: "sc_anomaly s = map (\<lambda>l. fl_ge l (threshold_of re)) (t_data losses)"
    by blast
  have labels: "sc_anomaly s = map (\<lambda>l. fl_ge l (sc_threshold s)) (sc_losses s)"
    using thr ls an by simp
  have len: "length (sc_losses s) = length dataset"
    using predict_losses_length [OF pr] ls by simp
  have boundary: "sc_anomaly s ! i"
    if "i < length (sc_losses s)" "sc_losses s ! i = sc_threshold s" "sc_threshold s \<noteq> NaN"
    for i
  proof -
    from that(3) obtain t where t: "sc_threshold s = Fin t"
      by (cases "sc_threshold s") simp_all
    from labels that(1) have "sc_anomaly s ! i = fl_ge (sc_losses s ! i) (sc_threshold s)"
      by simp
    with that(2) t show ?thesis by simp
  qed
  have csv: "fs' (resolve E ''training_logs/anomaly.csv'')
        = Some (AnomalyCsv (sc_true_values s) (sc_predictions s) (sc_losses s)
                 (map (\<lambda>l. fl_ge l (sc_threshold s)) (sc_losses s)))"
    if "plot_prediction E self fs dataset model model_path scaler show_plot = (Inr (), fs')"
    for fs'
    using that assms unfolding plot_prediction_def
    by (auto simp: Let_def split: if_splits)
  from labels len boundary csv show ?thesis by blast
qed

lemma threshold_of_1_3: "threshold_of [Fin 1, Fin 3] = Fin 3"
  by (simp add: threshold_of_def np_mean_def np_std_def mean_real_def)

lemma toy_predict_points:
  "predict toy_env self scored_files (toy_model 9) ''training_logs/m.pth''
     [point 3, point 2, point 4]
   = Inr (\<lparr>t_shape = [3, 1], t_data = [Fin 0, Fin 0, Fin 0]\<rparr>,
          \<lparr>t_shape = [3, 1], t_data = [Fin 3, Fin 2, Fin 4]\<rparr>)"
  by (simp add: predict_def torch_load_def load_state_dict_def np_array_rows_def
      np_array_floats_def reshape_column_def scored_files_def toy_model_def)

lemma toy_load_train_loss: "load_train_loss toy_env scored_files = Inr [Fin 1, Fin 3]"
  by (simp add: load_train_loss_def scored_files_def)

lemma toy_true_values:
  "np_asarray_tensors [point 3, point 2, point 4]
   = Inr \<lparr>t_shape = [3, 1, 1], t_data = [Fin 3, Fin 2, Fin 4]\<rparr>"
  by (simp add: np_asarray_tensors_def point_def)

lemma toy_metrics [simp]:
  "mean_absolute_error toy_env [Fin 3, Fin 2, Fin 4] [Fin 0, Fin 0, Fin 0] = Inr (Fin 3)"
  "r2_score toy_env t p = Inr (Fin 0)"
  by (simp_all add: toy_env_def toy_env_at_def np_mean_def mean_real_def)

lemma toy_scoring:
  "scoring toy_env self scored_files [point 3, point 2, point 4] (toy_model 9)
     ''training_logs/m.pth'' Inr = Inr scored"
  by (simp add: scoring_def toy_predict_points toy_load_train_loss toy_true_values
      threshold_of_1_3 reshape_column_def scored_def)

theorem threshold_from_training_losses_witness:
  "scoring toy_env (Trainer_init ''elsewhere'' ''m'') scored_files
     [point 3, point 2, point 4] (toy_model 9) ''training_logs/m.pth'' Inr = Inr scored
   \<and> scored_files (resolve toy_env ''training_logs/losses.npz'')
       = Some (Npz [Fin 1, Fin 3] [Fin 2, Fin 2])
   \<and> sc_threshold scored = fl_add (np_mean [Fin 1, Fin 3]) (np_std [Fin 1, Fin 3])
   \<and> sc_threshold scored = Fin 3"
  using threshold_from_training_losses [OF toy_scoring [of "Trainer_init ''elsewhere'' ''m''"]]
    toy_scoring [of "Trainer_init ''elsewhere'' ''m''"]
  by (simp add: scored_files_def scored_def)

lemma toy_plot_prediction:
  "plot_prediction toy_env self scored_files [point 3, point 2, point 4] (toy_model 9)
     ''training_logs/m.pth'' Inr True
   = (Inr (),
      scored_files
        (''figures/reconstruction_error.png'' \<mapsto> Histplot [Fin 1, Fin 3],
         ''figures/test_error.png'' \<mapsto> Histplot [Fin 3, Fin 2, Fin 4],
         ''figures/anomaly.png'' \<mapsto> Histplot [Fin 1, Fin 0, Fin 1],
         ''training_logs/result.txt'' \<mapsto>
           ResultTxt [Fin 3, Fin (2 / 3 * 100), Fin 3, Fin 0],
         ''training_logs/anomaly.csv'' \<mapsto>
           AnomalyCsv [Fin 3, Fin 2, Fin 4] [Fin 0, Fin 0, Fin 0] [Fin 3, Fin 2, Fin 4]
             [True, False, True]))"
  by (simp add: plot_prediction_def toy_scoring scored_def bool_float_def)

theorem anomaly_label_iff_loss_ge_threshold_witness:
  "scoring toy_env (Trainer_init ''training_logs'' ''m'') scored_files
     [point 3, point 2, point 4] (toy_model 9) ''training_logs/m.pth'' Inr = Inr scored
   \<and> sc_threshold scored = Fin 3
   \<and> sc_losses scored = [Fin 3, Fin 2, Fin 4]
   \<and> sc_anomaly scored = [True, False, True]
   \<and> sc_losses scored ! 0 = sc_threshold scored
   \<and> sc_anomaly scored ! 0
   \<and> fst (plot_prediction toy_env (Trainer_init ''training_logs'' ''m'') scored_files
        [point 3, point 2, point 4] (toy_model 9) ''training_logs/m.pth'' Inr True) = Inr ()
   \<and> snd (plot_prediction toy_env (Trainer_init ''training_logs'' ''m'') scored_files
        [point 3, point 2, point 4] (toy_model 9) ''training_logs/m.pth'' Inr True)
        (resolve toy_env ''training_logs/anomaly.csv'')
      = Some (AnomalyCsv [Fin 3, Fin 2, Fin 4] [Fin 0, Fin 0, Fin 0] [Fin 3, Fin 2, Fin 4]
               [True, False, True])"
  using anomaly_label_iff_loss_ge_threshold
    [OF toy_scoring [of "Trainer_init ''training_logs'' ''m''"], of True]
    toy_scoring [of "Trainer_init ''training_logs'' ''m''"]
    toy_plot_prediction [of "Trainer_init ''training_logs'' ''m''"]
  by (simp add: scored_def)

section \<open>The path of the training losses\<close>

lemma plot_prediction_log_dir:
  "plot_prediction E (self\<lparr>log_dir := d\<rparr>) fs ds m mp sc sp
   = plot_prediction E self fs ds m mp sc sp"
  by (simp add: plot_prediction_def scoring_def predict_def)

lemma fit_keeps_other_files:
  assumes "fit E self fs model tr va n lr = (out, self', model', fs')"
    and "resolve E (checkpoint_path self) \<noteq> f" and "resolve E (losses_path self) \<noteq> f"
  shows "fs' f = fs f"
proof (cases out)
  case (Inl err)
  with assms(1) fit_Inl show ?thesis by fastforce
next
  case (Inr h)
  with assms(1) have "fit E self fs model tr va n lr = (Inr h, self', model', fs')"
    by simp
  from fit_Inr [OF this] assms(2,3) show ?thesis by auto
qed

text \<open>
  C9, as the code has it. \<open>plot_prediction\<close> loads the training losses for the
  threshold from the fixed path \<open>training_logs/losses.npz\<close> and ignores the
  trainer's \<open>log_dir\<close>. When neither of the two paths \<open>fit\<close> writes names the file
  that this path names, the threshold after \<open>fit\<close> is derived from the archive that
  was at the fixed path before \<open>fit\<close>, not from the one \<open>fit\<close> saved.
\<close>

theorem threshold_ignores_log_dir:
  assumes "resolve E (losses_path self) \<noteq> resolve E ''training_logs/losses.npz''"
    and "resolve E (checkpoint_path self) \<noteq> resolve E ''training_logs/losses.npz''"
    and "fit E self fs model tr va n lr = (out, self', model', fs')"
  shows "plot_prediction E (self'\<lparr>log_dir := d\<rparr>) fs' ds m mp sc sp
           = plot_prediction E self' fs' ds m mp sc sp
       \<and> load_train_loss E fs' = load_train_loss E fs
       \<and> (\<forall>s. scoring E self' fs' ds m mp sc = Inr s
            \<longrightarrow> (\<exists>tl. load_train_loss E fs = Inr tl \<and> sc_threshold s = threshold_of tl))"
proof -
  have same: "fs' (resolve E ''training_logs/losses.npz'')
      = fs (resolve E ''training_logs/losses.npz'')"
    using fit_keeps_other_files [OF assms(3)] assms(1,2) by simp
  then have load: "load_train_loss E fs' = load_train_loss E fs"
    by (simp add: load_train_loss_def)
  have "\<exists>tl. load_train_loss E fs = Inr tl \<and> sc_threshold s = threshold_of tl"
    if "scoring E self' fs' ds m mp sc = Inr s" for s
    using scoring_Inr [OF that] load by auto
  with load plot_prediction_log_dir show ?thesis by blast
qed

lemma toy_fit_elsewhere:
  "fit toy_env (Trainer_init ''logs'' ''m'') scored_files (toy_model 0) [point 1] [point 3] 2 lr
   = (Inr ((\<lambda>k. [])(''train loss'' := [Fin 1, Fin 0], ''val loss'' := [Fin 2, Fin 1])),
      \<lparr>log_dir = ''logs'', model_name = ''m'',
       history = (\<lambda>k. [])(''train loss'' := [Fin 1, Fin 0], ''val loss'' := [Fin 2, Fin 1])\<rparr>,
      toy_model 2,
      scored_files
        (''logs/m.pth'' \<mapsto> Checkpoint (layers_of toy_arch) 2,
         ''logs/losses.npz'' \<mapsto> Npz [Fin 1, Fin 0] [Fin 2, Fin 1]))"
  by (simp add: fit_def Trainer_init_def toy_model_def eval_nat_numeral
      checkpoint_path_def losses_path_def np_savez_path_def endswith_def)

lemma toy_paths_elsewhere:
  "resolve toy_env (losses_path (Trainer_init ''logs'' ''m''))
     \<noteq> resolve toy_env ''training_logs/losses.npz''"
  "resolve toy_env (checkpoint_path (Trainer_init ''logs'' ''m''))
     \<noteq> resolve toy_env ''training_logs/losses.npz''"
  by (simp_all add: Trainer_init_def checkpoint_path_def losses_path_def np_savez_path_def
      endswith_def)

theorem threshold_ignores_log_dir_witness:
  "resolve toy_env (losses_path (Trainer_init ''logs'' ''m''))
     \<noteq> resolve toy_env ''training_logs/losses.npz''
   \<and> resolve toy_env (checkpoint_path (Trainer_init ''logs'' ''m''))
     \<noteq> resolve toy_env ''training_logs/losses.npz''
   \<and> fit toy_env (Trainer_init ''logs'' ''m'') scored_files (toy_model 0)
       [point 1] [point 3] 2 0.001
     = (Inr ((\<lambda>k. [])(''train loss'' := [Fin 1, Fin 0], ''val loss'' := [Fin 2, Fin 1])),
        \<lparr>log_dir = ''logs'', model_name = ''m'',
         history = (\<lambda>k. [])(''train loss'' := [Fin 1, Fin 0], ''val loss'' := [Fin 2, Fin 1])\<rparr>,
        toy_model 2,
        scored_files
          (''logs/m.pth'' \<mapsto> Checkpoint (layers_of toy_arch) 2,
           ''logs/losses.npz'' \<mapsto> Npz [Fin 1, Fin 0] [Fin 2, Fin 1]))
   \<and> load_train_loss toy_env
        (scored_files
          (''logs/m.pth'' \<mapsto> Checkpoint (layers_of toy_arch) 2,
           ''logs/losses.npz'' \<mapsto> Npz [Fin 1, Fin 0] [Fin 2, Fin 1]))
     = Inr [Fin 1, Fin 3]"
  using threshold_ignores_log_dir
    [OF toy_paths_elsewhere toy_fit_elsewhere [of "0.001"],
      of "''other''" "[]" "toy_model 0" "''x''" Inr True]
    toy_paths_elsewhere toy_fit_elsewhere [of "0.001"] toy_load_train_loss
  by simp

lemma posix_env_fields [simp]:
  "criterion posix_env = toy_criterion"
  "optimizer_step posix_env opt w x = ((), w + 1)"
  "Adam posix_env w lr = ()"
  "resolve posix_env = posix_resolve"
  "r2_score posix_env t p = Inr (Fin 0)"
  "mean_absolute_error posix_env t p = Inr (np_mean (map2 fl_abs_diff t p))"
  by (simp_all add: posix_env_def toy_env_at_def)

lemma posix_model_call [simp]:
  "model_call posix_env \<lparr>arch = toy_arch, state_dict = w\<rparr> (point v) = Inr (point w)"
  by (simp add: model_call_def point_def posix_env_def toy_env_at_def)

lemma posix_paths [simp]:
  "posix_resolve ''training_logs/losses.npz'' = [''training_logs'', ''losses.npz'']"
  "posix_resolve ''training_logs//losses.npz'' = [''training_logs'', ''losses.npz'']"
  "posix_resolve ''training_logs//m.pth'' = [''training_logs'', ''m.pth'']"
  "posix_resolve ''training_logs/m.pth'' = [''training_logs'', ''m.pth'']"
  by (simp_all add: posix_resolve_def)

lemma posix_fit:
  "fit posix_env (Trainer_init ''training_logs/'' ''m'') Map.empty (toy_model 0)
     [point 1] [point 3] 2 lr
   = (Inr ((\<lambda>k. [])(''train loss'' := [Fin 1, Fin 0], ''val loss'' := [Fin 2, Fin 1])),
      \<lparr>log_dir = ''training_logs/'', model_name = ''m'',
       history = (\<lambda>k. [])(''train loss'' := [Fin 1, Fin 0], ''val loss'' := [Fin 2, Fin 1])\<rparr>,
      toy_model 2, posix_files)"
  by (simp add: fit_def Trainer_init_def toy_model_def eval_nat_numeral posix_files_def
      checkpoint_path_def losses_path_def np_savez_path_def endswith_def)

lemma threshold_of_1_0: "threshold_of [Fin 1, Fin 0] = Fin 1"
proof -
  have "sqrt (1 / 4) = 1 / 2"
    by (simp add: real_sqrt_divide)
  then show ?thesis
    by (simp add: threshold_of_def np_mean_def np_std_def mean_real_def power2_eq_square)
qed

lemma posix_load_train_loss: "load_train_loss posix_env posix_files = Inr [Fin 1, Fin 0]"
  by (simp add: load_train_loss_def posix_files_def)

lemma posix_predict:
  "predict posix_env self posix_files (toy_model 2) ''training_logs/m.pth'' [point 5]
   = Inr (\<lparr>t_shape = [1, 1], t_data = [Fin 2]\<rparr>, \<lparr>t_shape = [1, 1], t_data = [Fin 3]\<rparr>)"
  by (simp add: predict_def torch_load_def load_state_dict_def np_array_rows_def
      np_array_floats_def reshape_column_def posix_files_def toy_model_def)

lemma posix_scoring:
  "map_sum id sc_threshold
     (scoring posix_env self posix_files [point 5] (toy_model 2) ''training_logs/m.pth'' Inr)
   = Inr (Fin 1)"
  by (simp add: scoring_def posix_predict posix_load_train_loss threshold_of_1_0
      np_asarray_tensors_def reshape_column_def np_mean_def mean_real_def)

text \<open>
  C9 as the claim has it fails for a \<open>log_dir\<close> that is another name of the
  directory \<open>training_logs\<close>: with \<open>log_dir = "training_logs/"\<close>, \<open>fit\<close> saves its
  history to \<open>training_logs//losses.npz\<close>, the file that \<open>plot_prediction\<close> loads,
  and the threshold is derived from it.
\<close>

theorem threshold_from_own_archive_counterexample:
  "log_dir (Trainer_init ''training_logs/'' ''m'') \<noteq> ''training_logs''
   \<and> fit posix_env (Trainer_init ''training_logs/'' ''m'') Map.empty (toy_model 0)
       [point 1] [point 3] 2 0.001
     = (Inr ((\<lambda>k. [])(''train loss'' := [Fin 1, Fin 0], ''val loss'' := [Fin 2, Fin 1])),
        \<lparr>log_dir = ''training_logs/'', model_name = ''m'',
         history = (\<lambda>k. [])(''train loss'' := [Fin 1, Fin 0], ''val loss'' := [Fin 2, Fin 1])\<rparr>,
        toy_model 2, posix_files)
   \<and> load_train_loss posix_env posix_files = Inr [Fin 1, Fin 0]
   \<and> map_sum id sc_threshold
        (scoring posix_env
          \<lparr>log_dir = ''training_logs/'', model_name = ''m'',
           history = (\<lambda>k. [])(''train loss'' := [Fin 1, Fin 0], ''val loss'' := [Fin 2, Fin 1])\<rparr>
          posix_files [point 5] (toy_model 2) ''training_logs/m.pth'' Inr)
     = Inr (threshold_of [Fin 1, Fin 0])"
  using posix_fit [of "0.001"] posix_load_train_loss
  by (simp add: posix_scoring threshold_of_1_0 Trainer_init_def)

section \<open>Claims about \<open>combine_data\<close>\<close>

lemma split_on_not_Nil [simp]: "split_on c s \<noteq> []"
  by (induction s) (auto split: list.splits)

lemma split_on_no_separator: "c \<notin> set s \<Longrightarrow> split_on c s = [s]"
  by (induction s) auto

lemma split_on_append: "split_on c (a @ c # b) = split_on c a @ split_on c b"
proof (induction a)
  case Nil
  then show ?case by simp
next
  case (Cons x a)
  then show ?case
    by (cases "split_on c a") auto
qed

lemma after_last_no_separator: "c \<notin> set s \<Longrightarrow> after_last c s = s"
proof -
  assume "c \<notin> set s"
  then have "takeWhile (\<lambda>x. x \<noteq> c) (rev s) = rev s"
    by (intro takeWhile_eq_all_conv [THEN iffD2]) auto
  then show ?thesis by (simp only: after_last_def rev_rev_ident)
qed

lemma after_last_append: "c \<notin> set b \<Longrightarrow> after_last c (a @ c # b) = b"
proof -
  assume "c \<notin> set b"
  then have "takeWhile (\<lambda>x. x \<noteq> c) (rev b @ c # rev a) = rev b"
    by (subst takeWhile_tail) (auto intro: takeWhile_eq_all_conv [THEN iffD2])
  then show ?thesis by (simp only: after_last_def rev_append rev.simps rev_rev_ident append.simps append_assoc)
qed

lemma last_split_on: "last (split_on c s) = after_last c s"
proof (cases "c \<in> set s")
  case False
  from split_on_no_separator [OF False] after_last_no_separator [OF False]
  show ?thesis by simp
next
  case True
  then obtain a b where s: "s = a @ c # b" and b: "c \<notin> set b"
    by (auto dest: split_list_last)
  from split_on_no_separator [OF b] after_last_append [OF b, of a] s
  show ?thesis by (simp add: split_on_append)
qed

lemma map_raise_Inr:
  "map_raise f xs = Inr ys \<Longrightarrow> map f xs = map Inr ys"
proof (induction xs arbitrary: ys)
  case Nil
  then show ?case by simp
next
  case (Cons x xs)
  then show ?case by (auto split: sum.splits)
qed

lemma sorted_by_key_Inr:
  assumes "sorted_by_key key xs = Inr ys"
  shows "mset ys = mset xs" and "\<exists>ks. map key ys = map Inr ks \<and> sorted ks"
proof -
  from assms obtain ks0 where
    ks0: "map_raise key xs = Inr ks0" and
    ys: "ys = map snd (sort_key fst (zip ks0 xs))"
    by (auto simp: sorted_by_key_def split: sum.splits)
  from map_raise_Inr [OF ks0] have keys: "map key xs = map Inr ks0" .
  then have len: "length ks0 = length xs"
    by (metis length_map)
  have "mset ys = image_mset snd (mset (zip ks0 xs))"
    using ys by simp
  also have "\<dots> = mset (map snd (zip ks0 xs))"
    by simp
  also have "\<dots> = mset xs"
    using len by simp
  finally show "mset ys = mset xs" .
  have pair: "key x = Inr k" if "(k, x) \<in> set (zip ks0 xs)" for k x
  proof -
    from that obtain i where i: "i < length xs" "ks0 ! i = k" "xs ! i = x"
      using len by (auto simp: in_set_zip)
    from keys i(1) len have "map key xs ! i = map Inr ks0 ! i" by simp
    with i len show ?thesis by simp
  qed
  have "map key ys = map Inr (map fst (sort_key fst (zip ks0 xs)))"
    unfolding ys using pair by (auto simp: comp_def)
  moreover have "sorted (map fst (sort_key fst (zip ks0 xs)))"
    by (rule sorted_sort_key)
  ultimately show "\<exists>ks. map key ys = map Inr ks \<and> sorted ks"
    by blast
qed

lemma extract_lines_rows:
  "extract_lines E lines (S, A, T) = Inr (S', A', T')
    \<Longrightarrow> \<exists>rows. map_raise (line_values E) lines = Inr rows
          \<and> S' = S @ map fst rows \<and> A' = A @ map (fst \<circ> snd) rows
          \<and> T' = T @ map (snd \<circ> snd) rows"
proof (induction lines arbitrary: S A T)
  case Nil
  then show ?case by simp
next
  case (Cons line rest)
  from Cons.prems obtain speed angle torque spd ang torq where
    fields: "split_on CHR '','' line = [speed, angle, torque]" and
    vals: "py_float E (after_last CHR '':'' speed) = Inr spd"
      "py_float E (after_last CHR '':'' angle) = Inr ang"
      "py_float E (after_last CHR '':'' torque) = Inr torq" and
    rest: "extract_lines E rest (S @ [spd], A @ [ang], T @ [torq]) = Inr (S', A', T')"
    by (auto simp: last_split_on split: list.splits sum.splits)
  from fields vals have "line_values E line = Inr (spd, ang, torq)"
    by (simp add: line_values_def)
  with Cons.IH [OF rest] show ?case by auto
qed

lemma extract_files_rows:
  "extract_files E paths (S, A, T) = Inr (S', A', T')
    \<Longrightarrow> \<exists>rows. map_raise (file_rows E) paths = Inr rows
          \<and> S' = S @ map fst (concat rows) \<and> A' = A @ map (fst \<circ> snd) (concat rows)
          \<and> T' = T @ map (snd \<circ> snd) (concat rows)"
proof (induction paths arbitrary: S A T)
  case Nil
  then show ?case by simp
next
  case (Cons p ps)
  from Cons.prems obtain lines S1 A1 T1 where
    rd: "readlines E p = Inr lines" and
    ls: "extract_lines E lines (S, A, T) = Inr (S1, A1, T1)" and
    rest: "extract_files E ps (S1, A1, T1) = Inr (S', A', T')"
    by (auto split: sum.splits)
  from extract_lines_rows [OF ls] obtain r where
    r: "map_raise (line_values E) lines = Inr r" "S1 = S @ map fst r"
      "A1 = A @ map (fst \<circ> snd) r" "T1 = T @ map (snd \<circ> snd) r"
    by blast
  from rd r(1) have "file_rows E p = Inr r"
    by (simp add: file_rows_def)
  with Cons.IH [OF rest] r(2,3,4) show ?case by auto
qed

lemma digit_of_chars:
  assumes "digit_of c = Some d"
  shows "c \<noteq> CHR ''_''" "c \<noteq> CHR ''.''" "c \<noteq> CHR ''-''" "c \<noteq> CHR ''+''" "\<not> is_space c"
  using assms
  by (auto simp: digit_of_def Let_def is_space_def split: if_splits)

lemma digits_value_digits:
  "digits_value acc ds = Some n \<Longrightarrow> c \<in> set ds \<Longrightarrow> \<exists>d. digit_of c = Some d"
  by (induction ds arbitrary: acc) (auto split: option.splits)

lemma py_strip_no_space:
  assumes "s \<noteq> []" and "\<not> is_space (hd s)" and "\<not> is_space (last s)"
  shows "py_strip s = s"
proof -
  from assms(1,2) have "dropWhile is_space s = s"
    by (cases s) simp_all
  moreover from assms(1,3) have "dropWhile is_space (rev s) = rev s"
    by (cases "rev s") (auto simp: last_rev [symmetric] hd_rev)
  ultimately show ?thesis by (simp add: py_strip_def)
qed

lemma py_int_digits:
  assumes "digits_value 0 ds = Some n" and "ds \<noteq> []"
  shows "py_int ds = Inr (int n)"
proof -
  from assms(2) have "hd ds \<in> set ds" "last ds \<in> set ds" by simp_all
  with digits_value_digits [OF assms(1)] obtain d1 d2 where
    d: "digit_of (hd ds) = Some d1" "digit_of (last ds) = Some d2"
    by blast
  from digit_of_chars [OF d(1)] digit_of_chars(5) [OF d(2)] assms(2)
  have "py_strip ds = ds" "hd ds \<noteq> CHR ''-''" "hd ds \<noteq> CHR ''+''"
    by (simp_all add: py_strip_no_space)
  with assms show ?thesis by (simp add: py_int_def)
qed

lemma os_path_join_suffix: "\<exists>pre. os_path_join d (stem @ rest) = pre @ rest"
proof -
  have "stem @ rest = stem @ rest" "d @ stem @ rest = (d @ stem) @ rest"
    "d @ ''/'' @ stem @ rest = (d @ ''/'' @ stem) @ rest"
    by simp_all
  then show ?thesis
    unfolding os_path_join_def by (metis (full_types))
qed

lemma numeric_suffix_of_name:
  assumes "digits_value 0 ds = Some n" and "ds \<noteq> []"
  shows "numeric_suffix (os_path_join d (stem @ ''_'' @ ds @ ''.txt'')) = Inr (int n)"
proof -
  from os_path_join_suffix [of d stem "''_'' @ ds @ ''.txt''"] obtain pre where
    path: "os_path_join d (stem @ ''_'' @ ds @ ''.txt'') = pre @ CHR ''_'' # (ds @ ''.txt'')"
    by auto
  have no_us: "CHR ''_'' \<notin> set (ds @ ''.txt'')" and no_dot: "CHR ''.'' \<notin> set ds"
    using digits_value_digits [OF assms(1)] digit_of_chars(1,2) by fastforce+
  from after_last_append [OF no_us, of pre] path
  have "last (split_on CHR ''_'' (os_path_join d (stem @ ''_'' @ ds @ ''.txt''))) = ds @ ''.txt''"
    by (simp add: last_split_on)
  moreover have "split_on CHR ''.'' (ds @ ''.txt'') = [ds, ''txt'']"
    using split_on_append [of "CHR ''.''" ds "''txt''"] split_on_no_separator [OF no_dot]
    by simp
  ultimately show ?thesis
    using py_int_digits [OF assms] by (simp add: numeric_suffix_def)
qed

text \<open>
  C8. \<open>combine_data\<close> reads the files of the source directory whose names end with
  \<open>txt\<close>, each once, in increasing order of the sort key
  \<open>int(x.split("_")[-1].split(".")[-2])\<close>, which for a name \<open>stem_digits.txt\<close> is the
  number \<open>digits\<close> (of at most 4300 digits); it writes one table with the columns \<open>SPD\<close>, \<open>ANG\<close>, \<open>TRQ\<close>
  whose rows are, in that order of the files and in the order of the lines, the
  values parsed from the text after the last \<open>:\<close> of each of the three fields of a
  line separated by commas.
\<close>

theorem combine_data_rows_in_suffix_order:
  assumes "combine_data E source_dir target_dir outfname = Inr (path, table)"
  shows "\<exists>names filepaths keys rows.
      listdir E source_dir = Inr names
      \<and> mset filepaths
          = mset (map (os_path_join source_dir) (filter (\<lambda>f. endswith f ''txt'') names))
      \<and> map numeric_suffix filepaths = map Inr keys \<and> sorted keys
      \<and> map_raise (file_rows E) filepaths = Inr rows
      \<and> table = [(''SPD'', map fst (concat rows)),
                  (''ANG'', map (fst \<circ> snd) (concat rows)),
                  (''TRQ'', map (snd \<circ> snd) (concat rows))]
      \<and> (\<forall>stem ds n. digits_value 0 ds = Some n \<longrightarrow> ds \<noteq> [] \<longrightarrow> length ds \<le> 4300
            \<longrightarrow> numeric_suffix (os_path_join source_dir (stem @ ''_'' @ ds @ ''.txt''))
                = Inr (int n))"
proof -
  from assms obtain names filepaths SPD ANG TRQ where
    names: "listdir E source_dir = Inr names" and
    srt: "sorted_by_key numeric_suffix
        (map (os_path_join source_dir) (filter (\<lambda>f. endswith f ''txt'') names))
      = Inr filepaths" and
    ext: "extract_files E filepaths ([], [], []) = Inr (SPD, ANG, TRQ)" and
    tab: "table = [(''SPD'', SPD), (''ANG'', ANG), (''TRQ'', TRQ)]"
    by (auto simp: combine_data_def split: sum.splits prod.splits)
  from sorted_by_key_Inr [OF srt] obtain keys where
    perm: "mset filepaths
      = mset (map (os_path_join source_dir) (filter (\<lambda>f. endswith f ''txt'') names))" and
    keys: "map numeric_suffix filepaths = map Inr keys" "sorted keys"
    by blast
  from extract_files_rows [OF ext] obtain rows where
    rows: "map_raise (file_rows E) filepaths = Inr rows" and
    cols: "SPD = map fst (concat rows)" "ANG = map (fst \<circ> snd) (concat rows)"
      "TRQ = map (snd \<circ> snd) (concat rows)"
    by auto
  from names perm keys rows tab cols numeric_suffix_of_name show ?thesis
    by blast
qed

lemma data_dir_keys:
  "numeric_suffix ''data/run_10.txt'' = Inr 10" "numeric_suffix ''data/run_2.txt'' = Inr 2"
  using numeric_suffix_of_name [of "''10''" 10 "''data''" "''run''"]
    numeric_suffix_of_name [of "''2''" 2 "''data''" "''run''"]
  by (simp_all add: digit_of_def os_path_join_def)

lemma data_dir_floats:
  "whole_float ''1'' = Inr (Fin 1)" "whole_float ''2'' = Inr (Fin 2)"
  "whole_float [CHR ''3'', CHR 0x0A] = Inr (Fin 3)" "whole_float ''4'' = Inr (Fin 4)"
  "whole_float ''5'' = Inr (Fin 5)" "whole_float [CHR ''6'', CHR 0x0A] = Inr (Fin 6)"
  "whole_float ''7'' = Inr (Fin 7)" "whole_float ''8'' = Inr (Fin 8)"
  "whole_float [CHR ''9'', CHR 0x0A] = Inr (Fin 9)"
  by (simp_all add: whole_float_def py_int_def py_strip_def is_space_def digit_of_def)

lemma data_dir_combined:
  "combine_data data_dir ''data'' None ''all''
   = Inr (''data/all.csv'',
          [(''SPD'', [Fin 1, Fin 4, Fin 7]), (''ANG'', [Fin 2, Fin 5, Fin 8]),
           (''TRQ'', [Fin 3, Fin 6, Fin 9])])"
  by (simp add: combine_data_def data_dir_def endswith_def sorted_by_key_def
      os_path_join_def data_dir_keys data_dir_floats)

theorem combine_data_rows_in_suffix_order_witness:
  "combine_data data_dir ''data'' None ''all''
   = Inr (''data/all.csv'',
          [(''SPD'', [Fin 1, Fin 4, Fin 7]), (''ANG'', [Fin 2, Fin 5, Fin 8]),
           (''TRQ'', [Fin 3, Fin 6, Fin 9])])
   \<and> listdir data_dir ''data'' = Inr [''run_10.txt'', ''notes.md'', ''run_2.txt'']
   \<and> map numeric_suffix [''data/run_2.txt'', ''data/run_10.txt''] = map Inr [2, 10]
   \<and> map_raise (file_rows data_dir) [''data/run_2.txt'', ''data/run_10.txt'']
       = Inr [[(Fin 1, Fin 2, Fin 3), (Fin 4, Fin 5, Fin 6)], [(Fin 7, Fin 8, Fin 9)]]
   \<and> (\<exists>names filepaths keys rows.
        listdir data_dir ''data'' = Inr names
        \<and> mset filepaths
            = mset (map (os_path_join ''data'') (filter (\<lambda>f. endswith f ''txt'') names))
        \<and> map numeric_suffix filepaths = map Inr keys \<and> sorted keys
        \<and> map_raise (file_rows data_dir) filepaths = Inr rows
        \<and> [(''SPD'', [Fin 1, Fin 4, Fin 7]), (''ANG'', [Fin 2, Fin 5, Fin 8]),
            (''TRQ'', [Fin 3, Fin 6, Fin 9])]
          = [(''SPD'', map fst (concat rows)),
             (''ANG'', map (fst \<circ> snd) (concat rows)),
             (''TRQ'', map (snd \<circ> snd) (concat rows))])"
proof -
  have rows: "map_raise (file_rows data_dir) [''data/run_2.txt'', ''data/run_10.txt'']
       = Inr [[(Fin 1, Fin 2, Fin 3), (Fin 4, Fin 5, Fin 6)], [(Fin 7, Fin 8, Fin 9)]]"
    by (simp add: file_rows_def line_values_def data_dir_def data_dir_floats after_last_def)
  have names: "listdir data_dir ''data'' = Inr [''run_10.txt'', ''notes.md'', ''run_2.txt'']"
    by (simp add: data_dir_def)
  from combine_data_rows_in_suffix_order [OF data_dir_combined]
  obtain ns fps ks rs where
    "listdir data_dir ''data'' = Inr ns"
    "mset fps = mset (map (os_path_join ''data'') (filter (\<lambda>f. endswith f ''txt'') ns))"
    "map numeric_suffix fps = map Inr ks" "sorted ks"
    "map_raise (file_rows data_dir) fps = Inr rs"
    "[(''SPD'', [Fin 1, Fin 4, Fin 7]), (''ANG'', [Fin 2, Fin 5, Fin 8]),
      (''TRQ'', [Fin 3, Fin 6, Fin 9])]
     = [(''SPD'', map fst (concat rs)),
        (''ANG'', map (fst \<circ> snd) (concat rs)),
        (''TRQ'', map (snd \<circ> snd) (concat rs))]"
    by (elim exE conjE) (rule that)
  then have "\<exists>names filepaths keys rows.
        listdir data_dir ''data'' = Inr names
        \<and> mset filepaths
            = mset (map (os_path_join ''data'') (filter (\<lambda>f. endswith f ''txt'') names))
        \<and> map numeric_suffix filepaths = map Inr keys \<and> sorted keys
        \<and> map_raise (file_rows data_dir) filepaths = Inr rows
        \<and> [(''SPD'', [Fin 1, Fin 4, Fin 7]), (''ANG'', [Fin 2, Fin 5, Fin 8]),
            (''TRQ'', [Fin 3, Fin 6, Fin 9])]
          = [(''SPD'', map fst (concat rows)),
             (''ANG'', map (fst \<circ> snd) (concat rows)),
             (''TRQ'', map (snd \<circ> snd) (concat rows))]"
    by (intro exI conjI)
  with data_dir_combined names rows data_dir_keys show ?thesis
    by (intro conjI) simp_all
qed

end
